theory Spec2Isabelle
  imports Main "HOL-Library.Sublist"
begin

section \<open>Python strings\<close>

text \<open>
  A Python \<open>str\<close> is modelled as a \<open>string\<close>, one \<open>char\<close> per code point, so the
  strings of the model are the strings of code points below 256. On these the whitespace
  class (\<open>str.isspace\<close>, which \<open>str.strip\<close> and the class \<open>\s\<close> of \<open>re\<close> use) and
  \<open>str.lower\<close> are Python's. The title-case form that \<open>str.capitalize\<close> gives the first
  character is Python's too, except for U+00B5 and U+00FF, whose title-case forms
  (U+039C and U+0178) no \<open>char\<close> can hold.
\<close>

definition is_space :: "char \<Rightarrow> bool" where
  "is_space c = (c \<in> set [CHR 0x09, CHR 0x0A, CHR 0x0B, CHR 0x0C, CHR 0x0D,
                           CHR 0x1C, CHR 0x1D, CHR 0x1E, CHR 0x1F, CHR '' '',
                           CHR 0x85, CHR 0xA0])"

text \<open>
  The characters with a lower-case form of their own: A to Z, and U+00C0 to U+00DE
  without the multiplication sign U+00D7. The lower-case form is 32 code points further.
\<close>

definition has_lower :: "char \<Rightarrow> bool" where
  "has_lower c =
     (let n = (of_char c :: nat)
      in (65 \<le> n \<and> n \<le> 90) \<or> (192 \<le> n \<and> n \<le> 222 \<and> n \<noteq> 215))"

definition lower_char :: "char \<Rightarrow> char" where
  "lower_char c = (if has_lower c then char_of ((of_char c :: nat) + 32) else c)"

text \<open>
  The characters whose title-case form is the character 32 code points before: a to z,
  and U+00E0 to U+00FE without the division sign U+00F7. The title-case form of U+00DF
  is the two characters \<open>Ss\<close>. U+00B5 and U+00FF are left as they are.
\<close>

definition has_upper :: "char \<Rightarrow> bool" where
  "has_upper c =
     (let n = (of_char c :: nat)
      in (97 \<le> n \<and> n \<le> 122) \<or> (224 \<le> n \<and> n \<le> 254 \<and> n \<noteq> 247))"

definition titlecase :: "char \<Rightarrow> string" where
  "titlecase c =
     (if has_upper c then [char_of ((of_char c :: nat) - 32)]
      else if c = CHR 0xDF then ''Ss''
      else [c])"

text \<open>\<open>s.lower()\<close>\<close>

definition lower :: "string \<Rightarrow> string" where
  "lower s = map lower_char s"

text \<open>\<open>s.capitalize()\<close>: the first character in title case, the rest lower-cased.\<close>

fun capitalize :: "string \<Rightarrow> string" where
  "capitalize [] = []"
| "capitalize (c # cs) = titlecase c @ lower cs"

text \<open>\<open>s.strip()\<close>\<close>

definition strip :: "string \<Rightarrow> string" where
  "strip s = rev (dropWhile is_space (rev (dropWhile is_space s)))"

text \<open>\<open>re.sub(r'\s+', ' ', s)\<close>: every maximal run of whitespace becomes one space.\<close>

function re_sub_ws :: "string \<Rightarrow> string" where
  "re_sub_ws [] = []"
| "re_sub_ws (c # cs) =
     (if is_space c then CHR '' '' # re_sub_ws (dropWhile is_space cs)
      else c # re_sub_ws cs)"
  by pat_completeness auto
termination
  by (relation "measure length") (auto simp: length_dropWhile_le less_Suc_eq_le)

text \<open>
  \<open>s.replace(old, new)\<close>: the non-overlapping occurrences of \<open>old\<close>, found from the
  left, are replaced by \<open>new\<close>. With an empty \<open>old\<close> Python puts \<open>new\<close> before every
  character and at the end.
\<close>

function replace_from :: "string \<Rightarrow> string \<Rightarrow> string \<Rightarrow> string" where
  "replace_from old new [] = []"
| "replace_from old new (c # cs) =
     (if old \<noteq> [] \<and> prefix old (c # cs)
      then new @ replace_from old new (drop (length old) (c # cs))
      else c # replace_from old new cs)"
  by pat_completeness auto
termination
  by (relation "measure (\<lambda>(old, new, s). length s)") (auto simp: neq_Nil_conv)

definition replace :: "string \<Rightarrow> string \<Rightarrow> string \<Rightarrow> string" where
  "replace old new s =
     (if old = [] then new @ concat (map (\<lambda>c. c # new) s) else replace_from old new s)"

text \<open>\<open>pat in s\<close>\<close>

fun str_contains :: "string \<Rightarrow> string \<Rightarrow> bool" where
  "str_contains pat [] = (pat = [])"
| "str_contains pat (c # cs) = (prefix pat (c # cs) \<or> str_contains pat cs)"

text \<open>\<open>s.startswith(p)\<close>\<close>

definition startswith :: "string \<Rightarrow> string \<Rightarrow> bool" where
  "startswith s p = prefix p s"

text \<open>\<open>sep.join(xs)\<close>\<close>

fun join :: "string \<Rightarrow> string list \<Rightarrow> string" where
  "join sep [] = []"
| "join sep [x] = x"
| "join sep (x # y # ys) = x @ sep @ join sep (y # ys)"

section \<open>Conversation state and the text-generation client\<close>

text \<open>
  The conversation state is a Python dict with the six keys that
  \<open>ConversationManager._create_new_conversation\<close> writes. A key that is absent is
  \<open>None\<close>, so that reading it is the \<open>KeyError\<close> of the source.
\<close>

record conv_state =
  question_number :: "int option"
  is_complete :: "bool option"
  initial_symptom :: "string option"
  answers :: "string list option"
  created_at :: "string option"
  last_updated :: "string option"

datatype exn =
  KeyError string
| ValueError string
| TypeError string
| OverflowError string
| Raised string

text \<open>
  A call of an external service either raises (with the exception's text) or returns
  an optional value.
\<close>

datatype 'a outcome = Raises string | Returns "'a option"

record chat_message =
  role :: string
  content :: string

text \<open>
  The methods of \<open>GroqClient\<close> that the flow and the audio service call. They reach
  the network, so they are parameters of the model.
\<close>

record GroqClient =
  generate_follow_up_question :: "string \<Rightarrow> int \<Rightarrow> string list \<Rightarrow> string outcome"
  generate_diagnosis :: "string \<Rightarrow> string list \<Rightarrow> string outcome"
  generate_audio_conversation_response :: "string \<Rightarrow> chat_message list \<Rightarrow> string outcome"

record response =
  bot_message :: string
  conversation_state :: conv_state

section \<open>MedicalLogic\<close>

definition max_questions :: int where
  "max_questions = 3"

text \<open>The table \<open>symptom_patterns\<close>, in the insertion order of the dict.\<close>

definition symptom_patterns :: "(string \<times> string list) list" where
  "symptom_patterns =
     [(''headache'', [''headache'', ''head pain'', ''head ache'', ''migraine'']),
      (''fever'', [''fever'', ''temperature'', ''hot'', ''burning up'']),
      (''cough'', [''cough'', ''coughing'', ''hack'']),
      (''pain'', [''pain'', ''hurt'', ''ache'', ''sore'']),
      (''nausea'', [''nausea'', ''nauseous'', ''sick to stomach'', ''queasy'']),
      (''fatigue'', [''tired'', ''fatigue'', ''exhausted'', ''weak'']),
      (''dizziness'', [''dizzy'', ''dizziness'', ''lightheaded'', ''vertigo''])]"

text \<open>\<open>_normalize_message\<close>\<close>

definition normalize_message :: "string \<Rightarrow> string" where
  "normalize_message message =
     (let message = re_sub_ws (strip message);
          message = replace ''no'' ''no'' (replace ''yes'' ''yes'' message);
          message = replace ''n'' ''no'' (replace ''y'' ''yes'' message)
      in message)"

text \<open>
  The loop of \<open>_clean_symptom_text\<close> over the prefixes: the first prefix the text
  starts with is cut off and the rest stripped, then the loop breaks.
\<close>

definition prefixes_to_remove :: "string list" where
  "prefixes_to_remove = [''i have'', ''i am experiencing'', ''i feel'', ''i got'', ''i'm having'']"

fun remove_first_prefix :: "string list \<Rightarrow> string \<Rightarrow> string" where
  "remove_first_prefix [] text_lower = text_lower"
| "remove_first_prefix (p # ps) text_lower =
     (if startswith text_lower p then strip (drop (length p) text_lower)
      else remove_first_prefix ps text_lower)"

text \<open>\<open>_clean_symptom_text\<close>\<close>

definition clean_symptom_text :: "string \<Rightarrow> string" where
  "clean_symptom_text text =
     (let text_lower = remove_first_prefix prefixes_to_remove (strip (lower text))
      in if text_lower \<noteq> [] then capitalize text_lower else text)"

text \<open>
  The two nested loops of \<open>_extract_symptom\<close>: the groups in table order, the patterns
  of a group in list order, returning at the first pattern found in the message.
\<close>

fun first_group :: "(string \<times> string list) list \<Rightarrow> string \<Rightarrow> string option" where
  "first_group [] message_lower = None"
| "first_group ((symptom_type, patterns) # rest) message_lower =
     (if list_ex (\<lambda>pattern. str_contains pattern message_lower) patterns
      then Some symptom_type
      else first_group rest message_lower)"

text \<open>\<open>_extract_symptom\<close>\<close>

definition extract_symptom :: "string \<Rightarrow> string" where
  "extract_symptom message =
     (case first_group symptom_patterns (lower message) of
        Some symptom_type \<Rightarrow> symptom_type
      | None \<Rightarrow> clean_symptom_text message)"

text \<open>\<open>_get_fallback_question\<close>: the first question of the list for the position.\<close>

definition get_fallback_question :: "string \<Rightarrow> int \<Rightarrow> string" where
  "get_fallback_question symptom n =
     (if n = 1 then ''How long have you been experiencing this symptom?''
      else if n = 2 then ''Are you experiencing any other symptoms along with this?''
      else if n = 3 then ''How is this affecting your daily activities?''
      else ''How are you feeling now?'')"

text \<open>
  \<open>_generate_follow_up_question\<close>: an exception of the client is caught and becomes
  \<open>None\<close>.
\<close>

definition generate_follow_up_question_ml ::
  "string \<Rightarrow> int \<Rightarrow> string list \<Rightarrow> GroqClient \<Rightarrow> string option" where
  "generate_follow_up_question_ml symptom n previous_answers groq =
     (case generate_follow_up_question groq symptom n previous_answers of
        Raises e \<Rightarrow> None
      | Returns r \<Rightarrow> r)"

text \<open>
  The question that both handlers send: the generated one, or the fallback question
  when the generated one is \<open>None\<close> or empty (\<open>if not question\<close>).
\<close>

definition question_or_fallback ::
  "string \<Rightarrow> int \<Rightarrow> string list \<Rightarrow> GroqClient \<Rightarrow> string" where
  "question_or_fallback symptom n previous_answers groq =
     (case generate_follow_up_question_ml symptom n previous_answers groq of
        None \<Rightarrow> get_fallback_question symptom n
      | Some question \<Rightarrow>
          if question \<noteq> [] then question else get_fallback_question symptom n)"

definition newline :: string where
  "newline = [CHR 0x0A]"

definition indent :: string where
  "indent = ''        ''"

text \<open>The text that \<open>_get_fallback_diagnosis\<close> builds from the symptom and the answers.\<close>

definition fallback_diagnosis_text :: "string \<Rightarrow> string list \<Rightarrow> string" where
  "fallback_diagnosis_text symptom ans =
     ''Based on your symptoms of '' @ symptom @ '' and your responses (''
     @ join '', '' ans @ ''), '' @ newline
     @ indent @ ''I recommend that you:'' @ newline
     @ indent @ newline
     @ indent @ ''1. Monitor your symptoms closely'' @ newline
     @ indent @ ''2. Get adequate rest and stay hydrated'' @ newline
     @ indent @ ''3. Consider over-the-counter pain relief if appropriate'' @ newline
     @ indent @ ''4. Consult with a healthcare professional if symptoms persist or worsen''
     @ newline
     @ indent @ newline
     @ indent @ ''This is general advice only. Please seek professional ''
     @ ''medical attention for proper diagnosis and treatment.''"

text \<open>\<open>_get_fallback_diagnosis\<close>: both keys are read before the text is built.\<close>

definition get_fallback_diagnosis :: "conv_state \<Rightarrow> exn + string" where
  "get_fallback_diagnosis st =
     (case initial_symptom st of
        None \<Rightarrow> Inl (KeyError ''initial_symptom'')
      | Some symptom \<Rightarrow>
          (case answers st of
             None \<Rightarrow> Inl (KeyError ''answers'')
           | Some ans \<Rightarrow> Inr (fallback_diagnosis_text symptom ans)))"

text \<open>
  \<open>_generate_diagnosis\<close>: the body of the \<open>try\<close> reads the two keys, calls the client
  and returns its text when that is not empty, the fallback diagnosis otherwise; the
  handler catches every exception of the body and returns the fallback diagnosis, whose
  own exception is no longer caught.
\<close>

definition generate_diagnosis_body :: "conv_state \<Rightarrow> GroqClient \<Rightarrow> exn + string" where
  "generate_diagnosis_body st groq =
     (case initial_symptom st of
        None \<Rightarrow> Inl (KeyError ''initial_symptom'')
      | Some symptom \<Rightarrow>
          (case answers st of
             None \<Rightarrow> Inl (KeyError ''answers'')
           | Some ans \<Rightarrow>
               (case generate_diagnosis groq symptom ans of
                  Raises e \<Rightarrow> Inl (Raised e)
                | Returns None \<Rightarrow> get_fallback_diagnosis st
                | Returns (Some diagnosis) \<Rightarrow>
                    if diagnosis \<noteq> [] then Inr diagnosis
                    else get_fallback_diagnosis st)))"

definition generate_diagnosis_ml :: "conv_state \<Rightarrow> GroqClient \<Rightarrow> exn + string" where
  "generate_diagnosis_ml st groq =
     (case generate_diagnosis_body st groq of
        Inl e \<Rightarrow> get_fallback_diagnosis st
      | Inr diagnosis \<Rightarrow> Inr diagnosis)"

text \<open>
  The handlers change the dict they are given in place. The model returns the state as
  it is when the handler returns or raises, with the bot message or the exception.
\<close>

text \<open>\<open>_handle_initial_symptom\<close>\<close>

definition handle_initial_symptom ::
  "string \<Rightarrow> conv_state \<Rightarrow> GroqClient \<Rightarrow> conv_state \<times> (exn + string)" where
  "handle_initial_symptom message st groq =
     (let symptom = extract_symptom message;
          st = st\<lparr>initial_symptom := Some symptom\<rparr>;
          st = st\<lparr>question_number := Some 1\<rparr>;
          question = question_or_fallback symptom 1 [] groq
      in (st, Inr question))"

text \<open>\<open>_handle_follow_up_response\<close>\<close>

definition handle_follow_up_response ::
  "string \<Rightarrow> conv_state \<Rightarrow> GroqClient \<Rightarrow> conv_state \<times> (exn + string)" where
  "handle_follow_up_response message st groq =
     (case question_number st of
        None \<Rightarrow> (st, Inl (KeyError ''question_number''))
      | Some current_question \<Rightarrow>
          (case answers st of
             None \<Rightarrow> (st, Inl (KeyError ''answers''))
           | Some ans \<Rightarrow>
               (let st = st\<lparr>answers := Some (ans @ [message])\<rparr> in
                if current_question \<ge> max_questions then
                  (case generate_diagnosis_ml st groq of
                     Inl e \<Rightarrow> (st, Inl e)
                   | Inr diagnosis \<Rightarrow> (st\<lparr>is_complete := Some True\<rparr>, Inr diagnosis))
                else
                  (let next_question_num = current_question + 1 in
                   case initial_symptom st of
                     None \<Rightarrow> (st, Inl (KeyError ''initial_symptom''))
                   | Some symptom \<Rightarrow>
                       (let question = question_or_fallback symptom next_question_num
                                         (ans @ [message]) groq
                        in (st\<lparr>question_number := Some next_question_num\<rparr>,
                            Inr question))))))"

text \<open>\<open>_create_error_response\<close>\<close>

definition create_error_response :: "conv_state \<Rightarrow> response" where
  "create_error_response st =
     \<lparr>bot_message = ''I'm sorry, I'm having trouble processing your message right now. ''
        @ ''Please try again or consult a healthcare professional for immediate assistance.'',
      conversation_state = st\<rparr>"

text \<open>
  \<open>process_message\<close>: the \<open>except\<close> clause answers every exception of the body with the
  error response, built from the dict the caller passed, as the body has left it.
\<close>

definition process_message :: "string \<Rightarrow> conv_state \<Rightarrow> GroqClient \<Rightarrow> response" where
  "process_message user_message st groq =
     (let normalized_message = normalize_message user_message in
      case question_number st of
        None \<Rightarrow> create_error_response st
      | Some q \<Rightarrow>
          (case (if q = 0 then handle_initial_symptom normalized_message st groq
                 else handle_follow_up_response normalized_message st groq) of
             (st', Inl e) \<Rightarrow> create_error_response st'
           | (st', Inr question) \<Rightarrow>
               \<lparr>bot_message = question, conversation_state = st'\<rparr>))"

text \<open>
  A conversation: the turns are processed one after the other, each on the state the
  turn before has returned, each with the client as it answers during that turn.
\<close>

fun run_turns :: "(string \<times> GroqClient) list \<Rightarrow> conv_state \<Rightarrow> conv_state" where
  "run_turns [] st = st"
| "run_turns ((user_message, groq) # turns) st =
     run_turns turns (conversation_state (process_message user_message st groq))"

text \<open>
  A \<open>GroqClient\<close> without an API key: \<open>generate_response\<close> returns \<open>None\<close>, and so does
  every method built on it.
\<close>

definition offline_client :: GroqClient where
  "offline_client =
     \<lparr>generate_follow_up_question = (\<lambda>symptom n previous_answers. Returns None),
      generate_diagnosis = (\<lambda>symptom ans. Returns None),
      generate_audio_conversation_response = (\<lambda>transcribed_text history. Returns None)\<rparr>"

text \<open>A client object whose methods raise.\<close>

definition raising_client :: GroqClient where
  "raising_client =
     \<lparr>generate_follow_up_question = (\<lambda>symptom n previous_answers. Raises ''timeout''),
      generate_diagnosis = (\<lambda>symptom ans. Raises ''timeout''),
      generate_audio_conversation_response = (\<lambda>transcribed_text history. Raises ''timeout'')\<rparr>"

section \<open>ConversationManager\<close>

text \<open>
  A \<open>datetime\<close> is its reading in microseconds since 0001-01-01T00:00:00, either naive or
  with a UTC offset. The largest reading is that of \<open>datetime.max\<close>,
  9999-12-31T23:59:59.999999. The clock \<open>datetime.utcnow()\<close> gives a naive datetime; it is
  read once for each call of the manager. The two library functions on the text of a
  timestamp are parameters: \<open>isoformat\<close> writes a naive reading, and \<open>fromisoformat\<close> is
  \<open>None\<close> where Python raises \<open>ValueError\<close>.
\<close>

datatype datetime = Naive int | Aware int



record datetime_lib =
  isoformat :: "int \<Rightarrow> string"
  fromisoformat :: "string \<Rightarrow> datetime option"





type_synonym conversations = "string \<rightharpoonup> conv_state"

text \<open>\<open>_create_new_conversation\<close>\<close>

definition create_new_conversation :: "datetime_lib \<Rightarrow> int \<Rightarrow> conv_state" where
  "create_new_conversation lib now =
     \<lparr>question_number = Some 0,
      is_complete = Some False,
      initial_symptom = Some [],
      answers = Some [],
      created_at = Some (isoformat lib now),
      last_updated = Some (isoformat lib now)\<rparr>"





text \<open>\<open>reset_conversation\<close>\<close>

definition reset_conversation ::
  "datetime_lib \<Rightarrow> int \<Rightarrow> string \<Rightarrow> conversations \<Rightarrow> conversations" where
  "reset_conversation lib now session_id convs =
     convs(session_id \<mapsto> create_new_conversation lib now)"

text \<open>
  A small timestamp format for examples: a naive timestamp is written as a run of as many
  \<open>u\<close> as it has microseconds, a timestamp with an offset as such a run followed by \<open>+\<close>,
  and any other text does not parse.
\<close>

definition unary_lib :: datetime_lib where
  "unary_lib =
     \<lparr>isoformat = (\<lambda>t. replicate (nat t) (CHR ''u'')),
      fromisoformat =
        (\<lambda>s. if list_all (\<lambda>c. c = CHR ''u'') s then Some (Naive (int (length s)))
             else if s \<noteq> [] \<and> last s = CHR ''+'' \<and> list_all (\<lambda>c. c = CHR ''u'') (butlast s)
             then Some (Aware (int (length s) - 1))
             else None)\<rparr>"

section \<open>AudioConversationService\<close>

type_synonym bytes = "char list"

text \<open>
  The services the orchestrator calls. \<open>text_to_speech\<close> takes the text and the optional
  output path; \<open>named_temporary_file\<close> is \<open>tempfile.NamedTemporaryFile\<close>, which gives the
  name of the new file or raises.
\<close>

record AzureSpeechService =
  transcribe_audio :: "string \<Rightarrow> string \<Rightarrow> string outcome"
  transcribe_audio_from_bytes :: "bytes \<Rightarrow> string \<Rightarrow> string outcome"

record ElevenLabsService =
  text_to_speech :: "string \<Rightarrow> string option \<Rightarrow> bytes outcome"

record services =
  azure_speech :: AzureSpeechService
  groq_client :: GroqClient
  elevenlabs_service :: ElevenLabsService
  named_temporary_file :: "exn + string"

text \<open>The result dicts of the two entry points share four keys.\<close>

record audio_result =
  success :: bool
  transcribed_text :: string
  ai_response :: string
  error :: string

record path_result = audio_result +
  audio_response_path :: string

record bytes_result = audio_result +
  audio_response_bytes :: bytes

text \<open>\<open>_update_conversation_history\<close>; \<open>history[-20:]\<close> keeps the last twenty entries.\<close>

definition update_conversation_history ::
  "chat_message list \<Rightarrow> string \<Rightarrow> string \<Rightarrow> chat_message list" where
  "update_conversation_history conversation_history user_input ai_response_text =
     (let history = conversation_history
                      @ [\<lparr>role = ''user'', content = user_input\<rparr>]
                      @ [\<lparr>role = ''assistant'', content = ai_response_text\<rparr>]
      in if length history > 20 then drop (length history - 20) history else history)"

text \<open>
  \<open>_generate_audio_response\<close>: the path of the audio file, or \<open>None\<close> when the speech
  service gives no audio or anything in the body raises.
\<close>

definition generate_audio_response :: "services \<Rightarrow> string \<Rightarrow> string option" where
  "generate_audio_response svc text =
     (case named_temporary_file svc of
        Inl e \<Rightarrow> None
      | Inr temp_path \<Rightarrow>
          (case text_to_speech (elevenlabs_service svc) text (Some temp_path) of
             Raises e \<Rightarrow> None
           | Returns None \<Rightarrow> None
           | Returns (Some audio_data) \<Rightarrow>
               if audio_data \<noteq> [] then Some temp_path else None))"

definition processing_error :: "string \<Rightarrow> string" where
  "processing_error e = ''Processing error: '' @ e"

text \<open>
  \<open>process_audio_conversation\<close>: the history after the call and the result dict. Each
  early \<open>return result\<close> and the \<open>except\<close> clause leave the history as it was.
\<close>

definition process_audio_conversation ::
  "services \<Rightarrow> chat_message list \<Rightarrow> string \<Rightarrow> string
     \<Rightarrow> chat_message list \<times> path_result" where
  "process_audio_conversation svc conversation_history audio_file_path language =
     (let result = \<lparr>success = False, transcribed_text = [], ai_response = [], error = [],
                     audio_response_path = []\<rparr>
      in case transcribe_audio (azure_speech svc) audio_file_path language of
           Raises e \<Rightarrow> (conversation_history, result\<lparr>error := processing_error e\<rparr>)
         | Returns None \<Rightarrow>
             (conversation_history, result\<lparr>error := ''Failed to transcribe audio''\<rparr>)
         | Returns (Some transcript) \<Rightarrow>
             if transcript = [] then
               (conversation_history, result\<lparr>error := ''Failed to transcribe audio''\<rparr>)
             else
               (let result = result\<lparr>transcribed_text := transcript\<rparr>
                in case generate_audio_conversation_response (groq_client svc) transcript
                          conversation_history of
                     Raises e \<Rightarrow>
                       (conversation_history, result\<lparr>error := processing_error e\<rparr>)
                   | Returns None \<Rightarrow>
                       (conversation_history,
                        result\<lparr>error := ''Failed to generate AI response''\<rparr>)
                   | Returns (Some reply) \<Rightarrow>
                       if reply = [] then
                         (conversation_history,
                          result\<lparr>error := ''Failed to generate AI response''\<rparr>)
                       else
                         (let result = result\<lparr>ai_response := reply\<rparr>
                          in case generate_audio_response svc reply of
                               None \<Rightarrow>
                                 (conversation_history,
                                  result\<lparr>error := ''Failed to generate audio response''\<rparr>)
                             | Some path \<Rightarrow>
                                 if path = [] then
                                   (conversation_history,
                                    result\<lparr>error := ''Failed to generate audio response''\<rparr>)
                                 else
                                   (update_conversation_history conversation_history
                                      transcript reply,
                                    result\<lparr>audio_response_path := path,
                                           success := True\<rparr>))))"

text \<open>\<open>process_audio_conversation_from_bytes\<close>\<close>

definition process_audio_conversation_from_bytes ::
  "services \<Rightarrow> chat_message list \<Rightarrow> bytes \<Rightarrow> string
     \<Rightarrow> chat_message list \<times> bytes_result" where
  "process_audio_conversation_from_bytes svc conversation_history audio_bytes language =
     (let result = \<lparr>success = False, transcribed_text = [], ai_response = [], error = [],
                     audio_response_bytes = []\<rparr>
      in case transcribe_audio_from_bytes (azure_speech svc) audio_bytes language of
           Raises e \<Rightarrow> (conversation_history, result\<lparr>error := processing_error e\<rparr>)
         | Returns None \<Rightarrow>
             (conversation_history, result\<lparr>error := ''Failed to transcribe audio''\<rparr>)
         | Returns (Some transcript) \<Rightarrow>
             if transcript = [] then
               (conversation_history, result\<lparr>error := ''Failed to transcribe audio''\<rparr>)
             else
               (let result = result\<lparr>transcribed_text := transcript\<rparr>
                in case generate_audio_conversation_response (groq_client svc) transcript
                          conversation_history of
                     Raises e \<Rightarrow>
                       (conversation_history, result\<lparr>error := processing_error e\<rparr>)
                   | Returns None \<Rightarrow>
                       (conversation_history,
                        result\<lparr>error := ''Failed to generate AI response''\<rparr>)
                   | Returns (Some reply) \<Rightarrow>
                       if reply = [] then
                         (conversation_history,
                          result\<lparr>error := ''Failed to generate AI response''\<rparr>)
                       else
                         (let result = result\<lparr>ai_response := reply\<rparr>
                          in case text_to_speech (elevenlabs_service svc) reply None of
                               Raises e \<Rightarrow>
                                 (conversation_history,
                                  result\<lparr>error := processing_error e\<rparr>)
                             | Returns None \<Rightarrow>
                                 (conversation_history,
                                  result\<lparr>error := ''Failed to generate audio response''\<rparr>)
                             | Returns (Some audio) \<Rightarrow>
                                 if audio = [] then
                                   (conversation_history,
                                    result\<lparr>error := ''Failed to generate audio response''\<rparr>)
                                 else
                                   (update_conversation_history conversation_history
                                      transcript reply,
                                    result\<lparr>audio_response_bytes := audio,
                                           success := True\<rparr>))))"

text \<open>
  A sequence of audio turns on one service object: each turn is one call of either entry
  point, with the services as they answer during that turn, on the history the turn
  before has left. A new service object has an empty history.
\<close>

datatype audio_turn =
  FromPath services string string
| FromBytes services bytes string

fun audio_turn_history :: "audio_turn \<Rightarrow> chat_message list \<Rightarrow> chat_message list" where
  "audio_turn_history (FromPath svc audio_file_path language) h =
     fst (process_audio_conversation svc h audio_file_path language)"
| "audio_turn_history (FromBytes svc audio_bytes language) h =
     fst (process_audio_conversation_from_bytes svc h audio_bytes language)"

fun run_audio_turns :: "audio_turn list \<Rightarrow> chat_message list \<Rightarrow> chat_message list" where
  "run_audio_turns [] h = h"
| "run_audio_turns (t # ts) h = run_audio_turns ts (audio_turn_history t h)"

text \<open>
  Services for examples: every stage answers, with the fixed texts below, except where a
  stage is switched off.
\<close>

definition working_services :: services where
  "working_services =
     \<lparr>azure_speech =
        \<lparr>transcribe_audio = (\<lambda>path language. Returns (Some ''I have a cough'')),
         transcribe_audio_from_bytes = (\<lambda>audio language. Returns (Some ''I have a cough''))\<rparr>,
      groq_client =
        \<lparr>generate_follow_up_question = (\<lambda>symptom n previous_answers. Returns None),
         generate_diagnosis = (\<lambda>symptom ans. Returns None),
         generate_audio_conversation_response =
           (\<lambda>transcribed_text history. Returns (Some ''How long have you had it?''))\<rparr>,
      elevenlabs_service = \<lparr>text_to_speech = (\<lambda>text output_path. Returns (Some ''mp3''))\<rparr>,
      named_temporary_file = Inr ''/tmp/reply.mp3''\<rparr>"

text \<open>A history of ten exchanges, twenty entries.\<close>

definition full_history :: "chat_message list" where
  "full_history =
     concat (replicate 10 [\<lparr>role = ''user'', content = ''hello''\<rparr>,
                           \<lparr>role = ''assistant'', content = ''hi''\<rparr>])"

text \<open>The same services with a speech service that has no API key.\<close>

definition mute_services :: services where
  "mute_services =
     working_services\<lparr>elevenlabs_service :=
       \<lparr>text_to_speech = (\<lambda>text output_path. Returns None)\<rparr>\<rparr>"

section \<open>The states of a conversation\<close>

text \<open>
  What holds of every state that the flow reaches from a new conversation: the four keys
  of the flow are present, the question number is between 0 and \<open>max_questions\<close>; before
  the diagnosis there is one answer less than the question number says (none while the
  first message is awaited), and from the diagnosis on the question number is
  \<open>max_questions\<close> and there are at least as many answers.
\<close>

definition flow_inv :: "conv_state \<Rightarrow> bool" where
  "flow_inv st =
     (case (question_number st, answers st, initial_symptom st, is_complete st) of
        (Some q, Some ans, Some symptom, Some complete) \<Rightarrow>
          0 \<le> q \<and> q \<le> max_questions
          \<and> (if complete then q = max_questions \<and> nat max_questions \<le> length ans
              else int (length ans) = (if q = 0 then 0 else q - 1))
      | _ \<Rightarrow> False)"

text \<open>
  An example conversation: four messages, each answered while the client has no API key.
\<close>

definition example_conversation :: "(string \<times> GroqClient) list" where
  "example_conversation =
     [(''I have a headache'', offline_client),
      (''2 days'', offline_client),
      (''yes nausea too'', offline_client),
      (''worse at night'', offline_client)]"

text \<open>A state for examples, after a first message about a cough.\<close>

definition example_state :: "int \<Rightarrow> string list \<Rightarrow> conv_state" where
  "example_state q ans =
     \<lparr>question_number = Some q,
      is_complete = Some False,
      initial_symptom = Some ''cough'',
      answers = Some ans,
      created_at = Some ''u'',
      last_updated = Some ''u''\<rparr>"

section \<open>Facts about the string functions\<close>

lemma replace_from_same_aux: "new = old \<Longrightarrow> replace_from old new s = s"
proof (induction old new s rule: replace_from.induct)
  case (1 old new)
  show ?case by simp
next
  case (2 old new c cs)
  show ?case
  proof (cases "old \<noteq> [] \<and> prefix old (c # cs)")
    case True
    then obtain zs where zs: "c # cs = old @ zs" by (auto simp: prefix_def)
    have "replace_from old new (c # cs)
            = new @ replace_from old new (drop (length old) (c # cs))"
      using True by simp
    also have "\<dots> = old @ drop (length old) (c # cs)"
      using 2(1)[OF True] 2(3) by simp
    also have "\<dots> = c # cs" by (simp add: zs)
    finally show ?thesis .
  next
    case False
    then show ?thesis using 2(2) 2(3) by auto
  qed
qed

lemma replace_same: "replace old old s = s"
proof (cases "old = []")
  case True
  then show ?thesis by (simp add: replace_def)
next
  case False
  then show ?thesis by (simp add: replace_def replace_from_same_aux)
qed

lemma replace_from_absent: "c \<notin> set s \<Longrightarrow> replace_from [c] new s = s"
  by (induction s) auto

lemma set_strip: "set (strip s) \<subseteq> set s"
proof -
  have "set (strip s) \<subseteq> set (rev (dropWhile is_space s))"
    unfolding strip_def using set_dropWhileD by fastforce
  also have "\<dots> \<subseteq> set s" using set_dropWhileD by fastforce
  finally show ?thesis .
qed

lemma set_re_sub_ws: "set (re_sub_ws s) \<subseteq> insert (CHR '' '') (set s)"
proof (induction s rule: re_sub_ws.induct)
  case 1
  show ?case by simp
next
  case (2 c cs)
  show ?case
  proof (cases "is_space c")
    case True
    have "set (dropWhile is_space cs) \<subseteq> set cs" using set_dropWhileD by fastforce
    with 2(1)[OF True] True show ?thesis by auto
  next
    case False
    with 2(2)[OF False] show ?thesis by auto
  qed
qed

lemma normalize_message_absent:
  assumes "CHR ''y'' \<notin> set m" "CHR ''n'' \<notin> set m"
  shows "normalize_message m = re_sub_ws (strip m)"
proof -
  let ?w = "re_sub_ws (strip m)"
  have sub: "set ?w \<subseteq> insert (CHR '' '') (set m)"
    using set_re_sub_ws[of "strip m"] set_strip[of m] by auto
  have y: "CHR ''y'' \<notin> set ?w" and n: "CHR ''n'' \<notin> set ?w"
    using sub assms by auto
  have "replace ''y'' ''yes'' ?w = ?w"
    using y by (simp add: replace_def replace_from_absent)
  moreover have "replace ''n'' ''no'' ?w = ?w"
    using n by (simp add: replace_def replace_from_absent)
  ultimately show ?thesis
    by (simp add: normalize_message_def Let_def replace_same)
qed

section \<open>Normalization of the message\<close>

text \<open>
  C5, as the code has it. A message without the letters \<open>y\<close> and \<open>n\<close> is normalized to
  itself with every run of whitespace collapsed to one space and the ends trimmed. The
  replacements of \<open>yes\<close> by \<open>yes\<close> and of \<open>no\<close> by \<open>no\<close> change no string. The
  replacements of \<open>y\<close> by \<open>yes\<close> and of \<open>n\<close> by \<open>no\<close> that follow them do: the message
  \<open>y\<close> becomes \<open>yes\<close> and the message \<open>n\<close> becomes \<open>no\<close>.
\<close>

theorem normalize_message_whitespace:
  "(CHR ''y'' \<notin> set message \<and> CHR ''n'' \<notin> set message
      \<longrightarrow> normalize_message message = re_sub_ws (strip message))
   \<and> replace ''yes'' ''yes'' s = s \<and> replace ''no'' ''no'' s = s
   \<and> normalize_message ''y'' = ''yes'' \<and> normalize_message ''n'' = ''no''"
proof -
  have "normalize_message ''y'' = ''yes''"
    by (simp add: normalize_message_def replace_def strip_def is_space_def)
  moreover have "normalize_message ''n'' = ''no''"
    by (simp add: normalize_message_def replace_def strip_def is_space_def)
  ultimately show ?thesis
    by (simp add: normalize_message_absent replace_same)
qed

theorem normalize_message_whitespace_witness:
  "CHR ''y'' \<notin> set '' a  lot   worse '' \<and> CHR ''n'' \<notin> set '' a  lot   worse ''
   \<and> normalize_message '' a  lot   worse '' = ''a lot worse''
   \<and> CHR ''y'' \<notin> set (''a'' @ [CHR 0xA0, CHR 0xA0] @ ''b'' @ [CHR 0x85])
   \<and> CHR ''n'' \<notin> set (''a'' @ [CHR 0xA0, CHR 0xA0] @ ''b'' @ [CHR 0x85])
   \<and> normalize_message (''a'' @ [CHR 0xA0, CHR 0xA0] @ ''b'' @ [CHR 0x85]) = ''a b''"
  using normalize_message_whitespace [of "'' a  lot   worse ''"]
    normalize_message_whitespace [of "''a'' @ [CHR 0xA0, CHR 0xA0] @ ''b'' @ [CHR 0x85]"]
  by (simp add: strip_def is_space_def)

text \<open>
  C5 as stated fails: the message \<open>y\<close> has no whitespace to collapse or trim, and the
  chain of replacements turns it into \<open>yes\<close>.
\<close>

theorem normalize_message_counterexample:
  "re_sub_ws (strip ''y'') = ''y'' \<and> normalize_message ''y'' = ''yes''
   \<and> normalize_message ''y'' \<noteq> re_sub_ws (strip ''y'')"
  by (simp add: normalize_message_def replace_def strip_def is_space_def)

section \<open>Single turns of the flow\<close>

lemma process_message_initial:
  assumes "question_number st = Some 0"
  shows "process_message m st g =
           \<lparr>bot_message = question_or_fallback (extract_symptom (normalize_message m)) 1 [] g,
            conversation_state =
              st\<lparr>initial_symptom := Some (extract_symptom (normalize_message m)),
                 question_number := Some 1\<rparr>\<rparr>"
  using assms by (simp add: process_message_def handle_initial_symptom_def Let_def)

lemma process_message_question:
  assumes "question_number st = Some q" "q \<noteq> 0" "q < max_questions"
    and "answers st = Some ans" "initial_symptom st = Some symptom"
  shows "process_message m st g =
           \<lparr>bot_message = question_or_fallback symptom (q + 1) (ans @ [normalize_message m]) g,
            conversation_state =
              st\<lparr>answers := Some (ans @ [normalize_message m]),
                 question_number := Some (q + 1)\<rparr>\<rparr>"
  using assms by (simp add: process_message_def handle_follow_up_response_def Let_def)

lemma generate_diagnosis_ml_present:
  assumes "answers st = Some ans" "initial_symptom st = Some symptom"
  shows "generate_diagnosis_ml st g =
           Inr (case generate_diagnosis g symptom ans of
                  Raises e \<Rightarrow> fallback_diagnosis_text symptom ans
                | Returns None \<Rightarrow> fallback_diagnosis_text symptom ans
                | Returns (Some text) \<Rightarrow>
                    if text \<noteq> [] then text else fallback_diagnosis_text symptom ans)"
  using assms
  by (auto simp: generate_diagnosis_ml_def generate_diagnosis_body_def get_fallback_diagnosis_def
           split: outcome.splits option.splits)

lemma process_message_diagnosis:
  assumes "question_number st = Some q" "max_questions \<le> q"
    and "answers st = Some ans" "initial_symptom st = Some symptom"
  shows "process_message m st g =
           \<lparr>bot_message =
              (case generate_diagnosis g symptom (ans @ [normalize_message m]) of
                 Raises e \<Rightarrow> fallback_diagnosis_text symptom (ans @ [normalize_message m])
               | Returns None \<Rightarrow> fallback_diagnosis_text symptom (ans @ [normalize_message m])
               | Returns (Some text) \<Rightarrow>
                   if text \<noteq> [] then text
                   else fallback_diagnosis_text symptom (ans @ [normalize_message m])),
            conversation_state =
              st\<lparr>answers := Some (ans @ [normalize_message m]), is_complete := Some True\<rparr>\<rparr>"
proof -
  let ?st = "st\<lparr>answers := Some (ans @ [normalize_message m])\<rparr>"
  have d: "generate_diagnosis_ml ?st g =
             Inr (case generate_diagnosis g symptom (ans @ [normalize_message m]) of
                 Raises e \<Rightarrow> fallback_diagnosis_text symptom (ans @ [normalize_message m])
               | Returns None \<Rightarrow> fallback_diagnosis_text symptom (ans @ [normalize_message m])
               | Returns (Some text) \<Rightarrow>
                   if text \<noteq> [] then text
                   else fallback_diagnosis_text symptom (ans @ [normalize_message m]))"
    using assms by (intro generate_diagnosis_ml_present) simp_all
  have "q \<noteq> 0" using assms(2) by (simp add: max_questions_def)
  then show ?thesis
    using assms d
    by (simp add: process_message_def handle_follow_up_response_def Let_def)
qed

section \<open>The invariant of the flow\<close>

lemma flow_inv_keys:
  assumes "flow_inv st"
  obtains q ans symptom complete where
    "question_number st = Some q" "answers st = Some ans"
    "initial_symptom st = Some symptom" "is_complete st = Some complete"
  using assms by (auto simp: flow_inv_def split: option.splits)

lemma flow_inv_new: "flow_inv (create_new_conversation lib now)"
  by (simp add: flow_inv_def create_new_conversation_def max_questions_def)

lemma flow_inv_step:
  assumes "flow_inv st"
  shows "flow_inv (conversation_state (process_message m st g))"
proof -
  from assms obtain q ans symptom complete where
    k: "question_number st = Some q" "answers st = Some ans"
       "initial_symptom st = Some symptom" "is_complete st = Some complete"
    by (rule flow_inv_keys)
  consider "q = 0" | "q \<noteq> 0" "q < max_questions" | "max_questions \<le> q" by linarith
  then show ?thesis
  proof cases
    case 1
    then show ?thesis using assms k
      by (simp add: process_message_initial flow_inv_def max_questions_def split: if_splits)
  next
    case 2
    then show ?thesis using assms k process_message_question[OF k(1) 2 k(2) k(3), of m g]
      by (auto simp: flow_inv_def max_questions_def split: if_splits)
  next
    case 3
    then show ?thesis using assms k process_message_diagnosis[OF k(1) 3 k(2) k(3), of m g]
      by (auto simp: flow_inv_def max_questions_def split: if_splits)
  qed
qed

lemma flow_inv_run: "flow_inv st \<Longrightarrow> flow_inv (run_turns turns st)"
proof (induction turns arbitrary: st)
  case Nil
  then show ?case by simp
next
  case (Cons t turns)
  obtain m g where t: "t = (m, g)" by (cases t)
  show ?case using Cons.IH[OF flow_inv_step[OF Cons.prems, of m g]] by (simp add: t)
qed

text \<open>A follow-up turn records one answer and stays in the follow-up phase.\<close>

lemma follow_up_step:
  assumes "flow_inv st" "question_number st = Some q" "1 \<le> q" "answers st = Some ans"
  shows "answers (conversation_state (process_message m st g)) = Some (ans @ [normalize_message m])
         \<and> (\<exists>q'. question_number (conversation_state (process_message m st g)) = Some q'
                  \<and> 1 \<le> q')"
proof -
  from assms(1) obtain symptom where s: "initial_symptom st = Some symptom"
    by (auto elim: flow_inv_keys)
  show ?thesis
  proof (cases "q < max_questions")
    case True
    then show ?thesis
      using assms process_message_question[OF assms(2) _ True assms(4) s, of m g] by simp
  next
    case False
    then have "max_questions \<le> q" by simp
    then show ?thesis
      using assms process_message_diagnosis[OF assms(2) _ assms(4) s, of m g] by simp
  qed
qed

lemma follow_up_run:
  assumes "flow_inv st" "question_number st = Some q" "1 \<le> q" "answers st = Some ans"
  shows "\<exists>q' ans'. question_number (run_turns turns st) = Some q' \<and> 1 \<le> q'
            \<and> answers (run_turns turns st) = Some ans'
            \<and> length ans' = length ans + length turns"
  using assms
proof (induction turns arbitrary: st q ans)
  case Nil
  then show ?case by simp
next
  case (Cons t turns)
  obtain m g where t: "t = (m, g)" by (cases t)
  let ?st = "conversation_state (process_message m st g)"
  from follow_up_step[OF Cons.prems, of m g] obtain q' where
    a: "answers ?st = Some (ans @ [normalize_message m])"
    and q': "question_number ?st = Some q'" "1 \<le> q'" by auto
  from Cons.IH[OF flow_inv_step[OF Cons.prems(1), of m g] q' a]
  show ?case by (simp add: t)
qed

lemma first_turn:
  "question_number (conversation_state (process_message m (create_new_conversation lib now) g))
     = Some 1
   \<and> answers (conversation_state (process_message m (create_new_conversation lib now) g))
     = Some []"
  by (simp add: process_message_initial create_new_conversation_def)

lemma fresh_run:
  assumes "turns \<noteq> []"
  shows "\<exists>q ans. question_number (run_turns turns (create_new_conversation lib now)) = Some q
            \<and> 1 \<le> q
            \<and> answers (run_turns turns (create_new_conversation lib now)) = Some ans
            \<and> length ans = length turns - 1"
proof -
  from assms obtain m g rest where t: "turns = (m, g) # rest" by (cases turns) auto
  let ?st = "conversation_state (process_message m (create_new_conversation lib now) g)"
  have inv: "flow_inv ?st" by (rule flow_inv_step[OF flow_inv_new])
  from follow_up_run[OF inv, of 1 "[]" rest] first_turn[of m lib now g]
  show ?thesis by (simp add: t)
qed

text \<open>Once complete, always complete.\<close>

lemma complete_step:
  assumes "flow_inv st" "is_complete st = Some True"
  shows "is_complete (conversation_state (process_message m st g)) = Some True"
proof -
  from assms obtain ans symptom where
    k: "question_number st = Some max_questions" "answers st = Some ans"
       "initial_symptom st = Some symptom"
    by (auto simp: flow_inv_def split: option.splits)
  show ?thesis using process_message_diagnosis[OF k(1) _ k(2) k(3), of m g] by simp
qed

lemma complete_run:
  "flow_inv st \<Longrightarrow> is_complete st = Some True \<Longrightarrow> is_complete (run_turns turns st) = Some True"
proof (induction turns arbitrary: st)
  case Nil
  then show ?case by simp
next
  case (Cons t turns)
  obtain m g where t: "t = (m, g)" by (cases t)
  show ?case
    using Cons.IH[OF flow_inv_step[OF Cons.prems(1), of m g] complete_step[OF Cons.prems, of m g]]
    by (simp add: t)
qed

lemma flow_inv_complete:
  assumes "flow_inv st" "is_complete st = Some True"
  shows "question_number st = Some max_questions \<and> answers st \<noteq> None
         \<and> initial_symptom st \<noteq> None"
  using assms by (auto simp: flow_inv_def split: option.splits)

section \<open>The diagnosis turn\<close>

text \<open>
  C1, as the code has it. On a state whose question number is \<open>max_questions\<close> = 3, one
  more message is appended to the answers, the bot message is the diagnosis (the text the
  client generates, or the fallback diagnosis when the client raises or returns nothing)
  and \<open>is_complete\<close> becomes true. The question number is not incremented: it stays 3.
  In every state reached from a new conversation the question number is between 0 and 3,
  and once such a state is complete every later turn leaves the question number at 3 and
  the state complete.
\<close>

theorem diagnosis_turn:
  "(question_number st = Some max_questions \<and> answers st = Some ans
      \<and> initial_symptom st = Some symptom
    \<longrightarrow> process_message m st g =
          \<lparr>bot_message =
             (case generate_diagnosis g symptom (ans @ [normalize_message m]) of
                Raises e \<Rightarrow> fallback_diagnosis_text symptom (ans @ [normalize_message m])
              | Returns None \<Rightarrow> fallback_diagnosis_text symptom (ans @ [normalize_message m])
              | Returns (Some text) \<Rightarrow>
                  if text \<noteq> [] then text
                  else fallback_diagnosis_text symptom (ans @ [normalize_message m])),
           conversation_state =
             st\<lparr>answers := Some (ans @ [normalize_message m]), is_complete := Some True\<rparr>\<rparr>
        \<and> question_number (conversation_state (process_message m st g)) = Some max_questions)
   \<and> (\<exists>q. question_number (run_turns turns (create_new_conversation lib now)) = Some q
          \<and> 0 \<le> q \<and> q \<le> max_questions)
   \<and> (is_complete (run_turns turns (create_new_conversation lib now)) = Some True
      \<longrightarrow> question_number (run_turns later (run_turns turns (create_new_conversation lib now)))
            = Some max_questions
        \<and> is_complete (run_turns later (run_turns turns (create_new_conversation lib now)))
            = Some True)"
proof -
  let ?st = "run_turns turns (create_new_conversation lib now)"
  have inv: "flow_inv ?st" by (rule flow_inv_run[OF flow_inv_new])
  have a: "question_number st = Some max_questions \<and> answers st = Some ans
      \<and> initial_symptom st = Some symptom
    \<longrightarrow> process_message m st g =
          \<lparr>bot_message =
             (case generate_diagnosis g symptom (ans @ [normalize_message m]) of
                Raises e \<Rightarrow> fallback_diagnosis_text symptom (ans @ [normalize_message m])
              | Returns None \<Rightarrow> fallback_diagnosis_text symptom (ans @ [normalize_message m])
              | Returns (Some text) \<Rightarrow>
                  if text \<noteq> [] then text
                  else fallback_diagnosis_text symptom (ans @ [normalize_message m])),
           conversation_state =
             st\<lparr>answers := Some (ans @ [normalize_message m]), is_complete := Some True\<rparr>\<rparr>
        \<and> question_number (conversation_state (process_message m st g)) = Some max_questions"
  proof (intro impI, elim conjE)
    assume k: "question_number st = Some max_questions" "answers st = Some ans"
      "initial_symptom st = Some symptom"
    show "process_message m st g =
          \<lparr>bot_message =
             (case generate_diagnosis g symptom (ans @ [normalize_message m]) of
                Raises e \<Rightarrow> fallback_diagnosis_text symptom (ans @ [normalize_message m])
              | Returns None \<Rightarrow> fallback_diagnosis_text symptom (ans @ [normalize_message m])
              | Returns (Some text) \<Rightarrow>
                  if text \<noteq> [] then text
                  else fallback_diagnosis_text symptom (ans @ [normalize_message m])),
           conversation_state =
             st\<lparr>answers := Some (ans @ [normalize_message m]), is_complete := Some True\<rparr>\<rparr>
        \<and> question_number (conversation_state (process_message m st g)) = Some max_questions"
      using process_message_diagnosis[OF k(1) _ k(2) k(3), of m g] k(1) by simp
  qed
  have b: "\<exists>q. question_number ?st = Some q \<and> 0 \<le> q \<and> q \<le> max_questions"
    using inv by (auto simp: flow_inv_def split: option.splits)
  have c: "is_complete ?st = Some True
      \<longrightarrow> question_number (run_turns later ?st) = Some max_questions
        \<and> is_complete (run_turns later ?st) = Some True"
  proof
    assume fin: "is_complete ?st = Some True"
    have "flow_inv (run_turns later ?st)" by (rule flow_inv_run[OF inv])
    moreover have "is_complete (run_turns later ?st) = Some True"
      by (rule complete_run[OF inv fin])
    ultimately show "question_number (run_turns later ?st) = Some max_questions
        \<and> is_complete (run_turns later ?st) = Some True"
      using flow_inv_complete by blast
  qed
  from a b c show ?thesis by blast
qed

text \<open>The example conversation, evaluated.\<close>

lemma example_run:
  "run_turns example_conversation (create_new_conversation unary_lib 0) =
     \<lparr>question_number = Some 3, is_complete = Some True,
      initial_symptom = Some ''headache'',
      answers = Some [''2 dayess'', ''yeses noausea too'', ''worse at noight''],
      created_at = Some [], last_updated = Some []\<rparr>"
  by code_simp

text \<open>The theorem at a state with question number 3, and after the example conversation.\<close>

theorem diagnosis_turn_witness:
  "question_number (example_state 3 [''two weeks'', ''a lot'']) = Some max_questions
   \<and> answers (example_state 3 [''two weeks'', ''a lot'']) = Some [''two weeks'', ''a lot'']
   \<and> initial_symptom (example_state 3 [''two weeks'', ''a lot'']) = Some ''cough''
   \<and> is_complete (run_turns example_conversation (create_new_conversation unary_lib 0)) = Some True
   \<and> conversation_state (process_message ''worse'' (example_state 3 [''two weeks'', ''a lot'']) offline_client)
       = (example_state 3 [''two weeks'', ''a lot''])
           \<lparr>answers := Some [''two weeks'', ''a lot'', ''worse''], is_complete := Some True\<rparr>
   \<and> question_number
        (run_turns [(''more'', offline_client)]
           (run_turns example_conversation (create_new_conversation unary_lib 0)))
       = Some 3"
proof -
  have n: "normalize_message ''worse'' = ''worse''" by code_simp
  have c: "is_complete (run_turns example_conversation (create_new_conversation unary_lib 0))
             = Some True"
    by (simp add: example_run)
  show ?thesis
    using diagnosis_turn [of "example_state 3 [''two weeks'', ''a lot'']"
        "[''two weeks'', ''a lot'']" "''cough''" "''worse''" offline_client
        example_conversation unary_lib 0 "[(''more'', offline_client)]"] c
    by (simp add: example_state_def max_questions_def n)
qed

text \<open>
  C1 as stated fails: after the diagnosis turn the question number is 3, not
  \<open>max_questions + 1\<close>.
\<close>

theorem diagnosis_turn_counterexample:
  "question_number (example_state 3 [''two weeks'', ''a lot'']) = Some max_questions
   \<and> question_number
        (conversation_state
           (process_message ''worse'' (example_state 3 [''two weeks'', ''a lot'']) offline_client))
       = Some 3
   \<and> question_number
        (conversation_state
           (process_message ''worse'' (example_state 3 [''two weeks'', ''a lot'']) offline_client))
       \<noteq> Some (max_questions + 1)"
  by (simp add: example_state_def max_questions_def process_message_def
        handle_follow_up_response_def generate_diagnosis_ml_def generate_diagnosis_body_def
        get_fallback_diagnosis_def offline_client_def Let_def)

section \<open>Turns on a completed session\<close>

text \<open>
  C3, as the code has it. \<open>process_message\<close> does not read \<open>is_complete\<close>. On a complete
  state with question number at least \<open>max_questions\<close> a further message leaves the
  question number, the initial symptom and \<open>is_complete\<close> as they are and appends the
  normalized message to the answers. Every complete state reached from a new conversation
  is such a state, with question number 3. \<open>reset_conversation\<close> stores a new conversation.
\<close>

theorem completed_session_turn:
  "(is_complete st = Some True \<and> question_number st = Some q \<and> max_questions \<le> q
      \<and> answers st = Some ans \<and> initial_symptom st = Some symptom
    \<longrightarrow> conversation_state (process_message m st g)
          = st\<lparr>answers := Some (ans @ [normalize_message m])\<rparr>)
   \<and> (is_complete (run_turns turns (create_new_conversation lib now)) = Some True
      \<longrightarrow> question_number (run_turns turns (create_new_conversation lib now))
            = Some max_questions
        \<and> answers (run_turns turns (create_new_conversation lib now)) \<noteq> None
        \<and> initial_symptom (run_turns turns (create_new_conversation lib now)) \<noteq> None)
   \<and> reset_conversation lib now' session_id convs session_id
       = Some (create_new_conversation lib now')"
proof -
  let ?st = "run_turns turns (create_new_conversation lib now)"
  have a: "is_complete st = Some True \<and> question_number st = Some q \<and> max_questions \<le> q
      \<and> answers st = Some ans \<and> initial_symptom st = Some symptom
    \<longrightarrow> conversation_state (process_message m st g)
          = st\<lparr>answers := Some (ans @ [normalize_message m])\<rparr>"
  proof (intro impI, elim conjE)
    assume k: "is_complete st = Some True" "question_number st = Some q" "max_questions \<le> q"
      "answers st = Some ans" "initial_symptom st = Some symptom"
    have "st\<lparr>answers := Some (ans @ [normalize_message m]), is_complete := Some True\<rparr>
            = st\<lparr>answers := Some (ans @ [normalize_message m])\<rparr>"
      using k(1) by (cases st) simp
    then show "conversation_state (process_message m st g)
          = st\<lparr>answers := Some (ans @ [normalize_message m])\<rparr>"
      using process_message_diagnosis[OF k(2) k(3) k(4) k(5), of m g] by simp
  qed
  have b: "is_complete ?st = Some True
      \<longrightarrow> question_number ?st = Some max_questions \<and> answers ?st \<noteq> None
        \<and> initial_symptom ?st \<noteq> None"
    using flow_inv_complete[OF flow_inv_run[OF flow_inv_new]] by blast
  have c: "reset_conversation lib now' session_id convs session_id
       = Some (create_new_conversation lib now')"
    by (simp add: reset_conversation_def)
  from a b c show ?thesis by blast
qed

text \<open>The theorem after the example conversation, with one more message.\<close>

theorem completed_session_turn_witness:
  "is_complete (run_turns example_conversation (create_new_conversation unary_lib 0)) = Some True
   \<and> question_number (run_turns example_conversation (create_new_conversation unary_lib 0))
       = Some 3
   \<and> max_questions \<le> 3
   \<and> answers (run_turns example_conversation (create_new_conversation unary_lib 0))
       = Some [''2 dayess'', ''yeses noausea too'', ''worse at noight'']
   \<and> initial_symptom (run_turns example_conversation (create_new_conversation unary_lib 0))
       = Some ''headache''
   \<and> conversation_state
        (process_message ''hello''
           (run_turns example_conversation (create_new_conversation unary_lib 0)) offline_client)
       = (run_turns example_conversation (create_new_conversation unary_lib 0))
           \<lparr>answers := Some [''2 dayess'', ''yeses noausea too'', ''worse at noight'', ''hello'']\<rparr>"
proof -
  have n: "normalize_message ''hello'' = ''hello''" by code_simp
  show ?thesis
    using completed_session_turn
      [of "run_turns example_conversation (create_new_conversation unary_lib 0)" 3
          "[''2 dayess'', ''yeses noausea too'', ''worse at noight'']" "''headache''"
          "''hello''" offline_client example_conversation unary_lib 0]
    by (simp add: example_run max_questions_def n)
qed

text \<open>
  C3 as stated fails: a message on the completed example conversation changes the
  answers.
\<close>

theorem completed_session_turn_counterexample:
  "is_complete (run_turns example_conversation (create_new_conversation unary_lib 0)) = Some True
   \<and> answers
        (conversation_state
           (process_message ''hello''
              (run_turns example_conversation (create_new_conversation unary_lib 0))
              offline_client))
       = Some [''2 dayess'', ''yeses noausea too'', ''worse at noight'', ''hello'']
   \<and> answers
        (conversation_state
           (process_message ''hello''
              (run_turns example_conversation (create_new_conversation unary_lib 0))
              offline_client))
       \<noteq> answers (run_turns example_conversation (create_new_conversation unary_lib 0))"
proof -
  have n: "normalize_message ''hello'' = ''hello''" by code_simp
  show ?thesis
    by (simp add: example_run n max_questions_def process_message_def
          handle_follow_up_response_def generate_diagnosis_ml_def generate_diagnosis_body_def
          get_fallback_diagnosis_def offline_client_def Let_def)
qed

section \<open>The number of answers\<close>

text \<open>
  C4, as the code has it. After every non-empty sequence of turns from a new conversation
  the state is in the follow-up phase, and the number of answers is the number of
  follow-up turns processed, that is, of all turns but the first. While the state is not
  complete the number of answers is the question number less one. From the diagnosis turn
  on the question number stays 3 and there are at least three answers.
\<close>

theorem answers_length:
  "turns \<noteq> []
   \<longrightarrow> (\<exists>q. question_number (run_turns turns (create_new_conversation lib now)) = Some q
             \<and> 1 \<le> q \<and> q \<le> max_questions
             \<and> (is_complete (run_turns turns (create_new_conversation lib now)) = Some False
                \<longrightarrow> map_option length (answers (run_turns turns (create_new_conversation lib now)))
                      = Some (nat (q - 1)))
             \<and> (is_complete (run_turns turns (create_new_conversation lib now)) = Some True
                \<longrightarrow> q = max_questions \<and> nat max_questions \<le> length turns - 1))
       \<and> map_option length (answers (run_turns turns (create_new_conversation lib now)))
           = Some (length turns - 1)"
proof
  assume ne: "turns \<noteq> []"
  let ?st = "run_turns turns (create_new_conversation lib now)"
  have inv: "flow_inv ?st" by (rule flow_inv_run[OF flow_inv_new])
  from fresh_run[OF ne, of lib now] obtain q ans where
    r: "question_number ?st = Some q" "1 \<le> q" "answers ?st = Some ans"
       "length ans = length turns - 1" by blast
  from inv r obtain complete where c: "is_complete ?st = Some complete"
    by (auto elim: flow_inv_keys)
  have "q \<le> max_questions" using inv r by (auto simp: flow_inv_def split: option.splits)
  moreover have "is_complete ?st = Some False \<longrightarrow> map_option length (answers ?st) = Some (nat (q - 1))"
    using inv r c by (auto simp: flow_inv_def split: option.splits if_splits)
  moreover have "is_complete ?st = Some True
                   \<longrightarrow> q = max_questions \<and> nat max_questions \<le> length turns - 1"
    using inv r c by (auto simp: flow_inv_def split: option.splits if_splits)
  ultimately show "(\<exists>q. question_number ?st = Some q
             \<and> 1 \<le> q \<and> q \<le> max_questions
             \<and> (is_complete ?st = Some False
                \<longrightarrow> map_option length (answers ?st) = Some (nat (q - 1)))
             \<and> (is_complete ?st = Some True
                \<longrightarrow> q = max_questions \<and> nat max_questions \<le> length turns - 1))
       \<and> map_option length (answers ?st) = Some (length turns - 1)"
    using r by auto
qed

text \<open>The theorem after the first three turns of the example conversation.\<close>

theorem answers_length_witness:
  "take 3 example_conversation \<noteq> []
   \<and> is_complete (run_turns (take 3 example_conversation) (create_new_conversation unary_lib 0))
       = Some False
   \<and> question_number (run_turns (take 3 example_conversation) (create_new_conversation unary_lib 0))
       = Some 3
   \<and> map_option length
        (answers (run_turns (take 3 example_conversation) (create_new_conversation unary_lib 0)))
       = Some 2"
proof -
  have r: "run_turns (take 3 example_conversation) (create_new_conversation unary_lib 0) =
     \<lparr>question_number = Some 3, is_complete = Some False,
      initial_symptom = Some ''headache'',
      answers = Some [''2 dayess'', ''yeses noausea too''],
      created_at = Some [], last_updated = Some []\<rparr>"
    by code_simp
  have ne: "take 3 example_conversation \<noteq> []" by (simp add: example_conversation_def)
  show ?thesis
    using answers_length [of "take 3 example_conversation" unary_lib 0] ne
    by (simp add: r)
qed

text \<open>
  C4 as stated fails: after the fourth turn of the example conversation there are three
  answers and the question number is 3.
\<close>

theorem answers_length_counterexample:
  "question_number (run_turns example_conversation (create_new_conversation unary_lib 0)) = Some 3
   \<and> map_option length (answers (run_turns example_conversation (create_new_conversation unary_lib 0)))
       = Some 3
   \<and> int (length (the (answers (run_turns example_conversation
                                   (create_new_conversation unary_lib 0)))))
       \<noteq> the (question_number (run_turns example_conversation
                                   (create_new_conversation unary_lib 0))) - 1"
  by (simp add: example_run)

section \<open>Exceptions\<close>

lemma question_or_fallback_raises:
  "generate_follow_up_question g symptom n previous = Raises e
   \<Longrightarrow> question_or_fallback symptom n previous g = get_fallback_question symptom n"
  by (simp add: question_or_fallback_def generate_follow_up_question_ml_def)

lemma process_message_no_question_number:
  "question_number st = None \<Longrightarrow> process_message m st g = create_error_response st"
  by (simp add: process_message_def)

lemma process_message_no_answers:
  "question_number st = Some q \<Longrightarrow> q \<noteq> 0 \<Longrightarrow> answers st = None
   \<Longrightarrow> process_message m st g = create_error_response st"
  by (simp add: process_message_def handle_follow_up_response_def)

text \<open>
  C2, as the code has it. The error response with the state as it came in is returned when
  the state has no question number, or is past the first message and has no answers. An
  exception of the client does not reach the \<open>except\<close> clause of \<open>process_message\<close>: on a
  state that has its question number, answers and initial symptom, every call changes the
  state (the question number becomes 1 on the first message, the normalized message is
  appended to the answers on a later one), and when the client raises the bot message is
  the fallback question of the position, or the fallback diagnosis.
\<close>

theorem error_response_reached:
  "(question_number st = None \<or> (question_number st \<noteq> Some 0 \<and> answers st = None)
    \<longrightarrow> process_message m st g = create_error_response st)
   \<and> (question_number st = Some q \<and> answers st = Some ans \<and> initial_symptom st = Some symptom
      \<longrightarrow> conversation_state (process_message m st g) \<noteq> st
        \<and> (q = 0 \<longrightarrow> question_number (conversation_state (process_message m st g)) = Some 1)
        \<and> (q \<noteq> 0 \<longrightarrow> answers (conversation_state (process_message m st g))
                          = Some (ans @ [normalize_message m]))
        \<and> (generate_follow_up_question g (extract_symptom (normalize_message m)) 1 []
               = Raises e \<and> q = 0
           \<longrightarrow> bot_message (process_message m st g)
                 = get_fallback_question (extract_symptom (normalize_message m)) 1)
        \<and> (generate_follow_up_question g symptom (q + 1) (ans @ [normalize_message m])
               = Raises e \<and> q \<noteq> 0 \<and> q < max_questions
           \<longrightarrow> bot_message (process_message m st g) = get_fallback_question symptom (q + 1))
        \<and> (generate_diagnosis g symptom (ans @ [normalize_message m]) = Raises e
               \<and> max_questions \<le> q
           \<longrightarrow> bot_message (process_message m st g)
                 = fallback_diagnosis_text symptom (ans @ [normalize_message m])))"
proof -
  have a: "question_number st = None \<or> (question_number st \<noteq> Some 0 \<and> answers st = None)
    \<longrightarrow> process_message m st g = create_error_response st"
  proof (cases "question_number st")
    case None
    then show ?thesis by (simp add: process_message_no_question_number)
  next
    case (Some k)
    then show ?thesis using process_message_no_answers[of st k m g] by auto
  qed
  have b: "question_number st = Some q \<and> answers st = Some ans \<and> initial_symptom st = Some symptom
      \<longrightarrow> conversation_state (process_message m st g) \<noteq> st
        \<and> (q = 0 \<longrightarrow> question_number (conversation_state (process_message m st g)) = Some 1)
        \<and> (q \<noteq> 0 \<longrightarrow> answers (conversation_state (process_message m st g))
                          = Some (ans @ [normalize_message m]))
        \<and> (generate_follow_up_question g (extract_symptom (normalize_message m)) 1 []
               = Raises e \<and> q = 0
           \<longrightarrow> bot_message (process_message m st g)
                 = get_fallback_question (extract_symptom (normalize_message m)) 1)
        \<and> (generate_follow_up_question g symptom (q + 1) (ans @ [normalize_message m])
               = Raises e \<and> q \<noteq> 0 \<and> q < max_questions
           \<longrightarrow> bot_message (process_message m st g) = get_fallback_question symptom (q + 1))
        \<and> (generate_diagnosis g symptom (ans @ [normalize_message m]) = Raises e
               \<and> max_questions \<le> q
           \<longrightarrow> bot_message (process_message m st g)
                 = fallback_diagnosis_text symptom (ans @ [normalize_message m]))"
  proof (intro impI, elim conjE)
    assume k: "question_number st = Some q" "answers st = Some ans"
      "initial_symptom st = Some symptom"
    have changed: "conversation_state (process_message m st g) \<noteq> st"
    proof
      assume eq: "conversation_state (process_message m st g) = st"
      consider "q = 0" | "q \<noteq> 0" "q < max_questions" | "max_questions \<le> q" by linarith
      then show False
      proof cases
        case 1
        have "question_number (conversation_state (process_message m st g)) = Some 1"
          using k 1 by (simp add: process_message_initial)
        then show False using eq k 1 by simp
      next
        case 2
        have "answers (conversation_state (process_message m st g))
                = Some (ans @ [normalize_message m])"
          using process_message_question[OF k(1) 2 k(2) k(3), of m g] by simp
        then show False using eq k by simp
      next
        case 3
        have "answers (conversation_state (process_message m st g))
                = Some (ans @ [normalize_message m])"
          using process_message_diagnosis[OF k(1) 3 k(2) k(3), of m g] by simp
        then show False using eq k by simp
      qed
    qed
    have q0: "q = 0 \<longrightarrow> question_number (conversation_state (process_message m st g)) = Some 1"
      using k by (simp add: process_message_initial)
    have qn: "q \<noteq> 0 \<longrightarrow> answers (conversation_state (process_message m st g))
                          = Some (ans @ [normalize_message m])"
    proof
      assume nz: "q \<noteq> 0"
      show "answers (conversation_state (process_message m st g))
                          = Some (ans @ [normalize_message m])"
      proof (cases "q < max_questions")
        case True
        then show ?thesis using process_message_question[OF k(1) nz True k(2) k(3), of m g] by simp
      next
        case False
        then have "max_questions \<le> q" by simp
        then show ?thesis using process_message_diagnosis[OF k(1) _ k(2) k(3), of m g] by simp
      qed
    qed
    have r1: "generate_follow_up_question g (extract_symptom (normalize_message m)) 1 []
               = Raises e \<and> q = 0
           \<longrightarrow> bot_message (process_message m st g)
                 = get_fallback_question (extract_symptom (normalize_message m)) 1"
      using k by (simp add: process_message_initial question_or_fallback_raises)
    have r2: "generate_follow_up_question g symptom (q + 1) (ans @ [normalize_message m])
               = Raises e \<and> q \<noteq> 0 \<and> q < max_questions
           \<longrightarrow> bot_message (process_message m st g) = get_fallback_question symptom (q + 1)"
      using k process_message_question[OF k(1) _ _ k(2) k(3), of m g]
      by (simp add: question_or_fallback_raises)
    have r3: "generate_diagnosis g symptom (ans @ [normalize_message m]) = Raises e
               \<and> max_questions \<le> q
           \<longrightarrow> bot_message (process_message m st g)
                 = fallback_diagnosis_text symptom (ans @ [normalize_message m])"
      using k process_message_diagnosis[OF k(1) _ k(2) k(3), of m g] by simp
    from changed q0 qn r1 r2 r3
    show "conversation_state (process_message m st g) \<noteq> st
        \<and> (q = 0 \<longrightarrow> question_number (conversation_state (process_message m st g)) = Some 1)
        \<and> (q \<noteq> 0 \<longrightarrow> answers (conversation_state (process_message m st g))
                          = Some (ans @ [normalize_message m]))
        \<and> (generate_follow_up_question g (extract_symptom (normalize_message m)) 1 []
               = Raises e \<and> q = 0
           \<longrightarrow> bot_message (process_message m st g)
                 = get_fallback_question (extract_symptom (normalize_message m)) 1)
        \<and> (generate_follow_up_question g symptom (q + 1) (ans @ [normalize_message m])
               = Raises e \<and> q \<noteq> 0 \<and> q < max_questions
           \<longrightarrow> bot_message (process_message m st g) = get_fallback_question symptom (q + 1))
        \<and> (generate_diagnosis g symptom (ans @ [normalize_message m]) = Raises e
               \<and> max_questions \<le> q
           \<longrightarrow> bot_message (process_message m st g)
                 = fallback_diagnosis_text symptom (ans @ [normalize_message m]))"
      by blast
  qed
  from a b show ?thesis by blast
qed

text \<open>
  The theorem at a state without its question number, and at a state in the follow-up
  phase with a client that raises.
\<close>

theorem error_response_reached_witness:
  "question_number ((example_state 1 [])\<lparr>question_number := None\<rparr>) = None
   \<and> process_message ''a lot'' ((example_state 1 [])\<lparr>question_number := None\<rparr>) raising_client
       = create_error_response ((example_state 1 [])\<lparr>question_number := None\<rparr>)
   \<and> question_number (example_state 1 []) = Some 1
   \<and> answers (example_state 1 []) = Some []
   \<and> initial_symptom (example_state 1 []) = Some ''cough''
   \<and> generate_follow_up_question raising_client ''cough'' 2 [''a lot''] = Raises ''timeout''
   \<and> (1::int) \<noteq> 0 \<and> 1 < max_questions
   \<and> answers (conversation_state (process_message ''a lot'' (example_state 1 []) raising_client))
       = Some [''a lot'']
   \<and> bot_message (process_message ''a lot'' (example_state 1 []) raising_client)
       = ''Are you experiencing any other symptoms along with this?''"
proof -
  have n: "normalize_message ''a lot'' = ''a lot''" by code_simp
  have a: "process_message ''a lot'' ((example_state 1 [])\<lparr>question_number := None\<rparr>)
             raising_client
           = create_error_response ((example_state 1 [])\<lparr>question_number := None\<rparr>)"
    using error_response_reached
      [where st = "(example_state 1 [])\<lparr>question_number := None\<rparr>" and m = "''a lot''"
         and g = raising_client]
    by (simp add: example_state_def)
  show ?thesis
    using a error_response_reached
      [where st = "example_state 1 []" and q = 1 and ans = "[]" and symptom = "''cough''"
         and m = "''a lot''" and g = raising_client and e = "''timeout''"]
    by (simp add: example_state_def raising_client_def max_questions_def n
          get_fallback_question_def)
qed

text \<open>
  C2 as stated fails: the client raises while the second question is generated, and the
  call returns the fallback question with the answer recorded and the question number
  advanced, not the error response.
\<close>

theorem error_response_counterexample:
  "generate_follow_up_question raising_client ''cough'' 2 [''a lot''] = Raises ''timeout''
   \<and> process_message ''a lot'' (example_state 1 []) raising_client
       = \<lparr>bot_message = ''Are you experiencing any other symptoms along with this?'',
          conversation_state = example_state 2 [''a lot'']\<rparr>
   \<and> process_message ''a lot'' (example_state 1 []) raising_client
       \<noteq> create_error_response (example_state 1 [])"
proof -
  have n: "normalize_message ''a lot'' = ''a lot''" by code_simp
  show ?thesis
    by (simp add: n example_state_def raising_client_def max_questions_def
          process_message_def handle_follow_up_response_def question_or_fallback_def
          generate_follow_up_question_ml_def get_fallback_question_def
          create_error_response_def Let_def)
qed

section \<open>The first message\<close>

lemma first_group_find:
  "first_group table low =
     map_option fst (find (\<lambda>(label, patterns). \<exists>p \<in> set patterns. str_contains p low) table)"
  by (induction table) (auto simp: list_ex_iff)

lemma remove_first_prefix_find:
  "remove_first_prefix ps t =
     (case find (\<lambda>p. prefix p t) ps of
        Some p \<Rightarrow> strip (drop (length p) t)
      | None \<Rightarrow> t)"
  by (induction ps) (auto simp: startswith_def)

lemma has_lower_lower_char: "\<not> has_lower (lower_char c)"
proof (cases "has_lower c")
  case True
  then have "(of_char (lower_char c) :: nat) = of_char c + 32"
    by (auto simp: lower_char_def has_lower_def Let_def)
  with True show ?thesis by (auto simp: has_lower_def Let_def)
next
  case False
  then show ?thesis by (simp add: lower_char_def)
qed

lemma lower_char_idem: "lower_char (lower_char c) = lower_char c"
  using has_lower_lower_char[of c] by (simp add: lower_char_def)

lemma lower_fixed: "\<forall>c \<in> set s. lower_char c = c \<Longrightarrow> lower s = s"
  by (simp add: lower_def map_idI)

lemma set_remove_first_prefix: "set (remove_first_prefix ps t) \<subseteq> set t"
proof (induction ps)
  case Nil
  show ?case by simp
next
  case (Cons p ps)
  have "set (strip (drop (length p) t)) \<subseteq> set t"
    using set_strip[of "drop (length p) t"] set_drop_subset[of "length p" t] by blast
  with Cons show ?case by simp
qed

lemma capitalize_lowered:
  assumes "set rest \<subseteq> set (lower s)" "rest \<noteq> []"
  shows "capitalize rest = titlecase (hd rest) @ tl rest"
proof -
  have "\<forall>c \<in> set rest. lower_char c = c"
    using assms(1) by (auto simp: lower_def lower_char_idem)
  then have "\<forall>c \<in> set (tl rest). lower_char c = c"
    using assms(2) by (cases rest) auto
  then have "lower (tl rest) = tl rest" by (rule lower_fixed)
  then show ?thesis using assms(2) by (cases rest) auto
qed

lemma clean_symptom_text_find:
  "clean_symptom_text text =
     (let rest = (case find (\<lambda>p. prefix p (strip (lower text))) prefixes_to_remove of
                    Some p \<Rightarrow> strip (drop (length p) (strip (lower text)))
                  | None \<Rightarrow> strip (lower text))
      in if rest = [] then text else titlecase (hd rest) @ tl rest)"
proof -
  let ?rest = "remove_first_prefix prefixes_to_remove (strip (lower text))"
  have "set ?rest \<subseteq> set (lower text)"
    using set_remove_first_prefix[of prefixes_to_remove "strip (lower text)"]
      set_strip[of "lower text"] by blast
  then have "?rest \<noteq> [] \<Longrightarrow> capitalize ?rest = titlecase (hd ?rest) @ tl ?rest"
    by (rule capitalize_lowered)
  then show ?thesis
    by (auto simp: clean_symptom_text_def Let_def remove_first_prefix_find)
qed

text \<open>
  C6, as the code has it, for messages without U+00B5 and U+00FF (the two characters of
  the model whose title-case form is beyond it). A message processed on a state with
  question number 0 sets the question number to 1 and leaves \<open>is_complete\<close> and the answers
  as they are. The initial symptom is found in the normalized message: it is the label of
  the first group of the table one of whose patterns occurs in the lower-cased normalized
  message. When no group has such a pattern, the lower-cased normalized message is
  stripped, the first of the five phrases it starts with is cut off and the rest stripped
  again; the initial symptom is that rest with its first character in title case, and the
  normalized message itself when the rest is empty.
\<close>

theorem initial_symptom_turn:
  "question_number st = Some 0 \<and> CHR 0xB5 \<notin> set m \<and> CHR 0xFF \<notin> set m
   \<longrightarrow> question_number (conversation_state (process_message m st g)) = Some 1
     \<and> is_complete (conversation_state (process_message m st g)) = is_complete st
     \<and> answers (conversation_state (process_message m st g)) = answers st
     \<and> initial_symptom (conversation_state (process_message m st g)) =
         Some (case find (\<lambda>(label, patterns).
                            \<exists>p \<in> set patterns. str_contains p (lower (normalize_message m)))
                     symptom_patterns of
                 Some (label, patterns) \<Rightarrow> label
               | None \<Rightarrow>
                   (let text = strip (lower (normalize_message m));
                        rest = (case find (\<lambda>p. prefix p text) prefixes_to_remove of
                                  Some p \<Rightarrow> strip (drop (length p) text)
                                | None \<Rightarrow> text)
                    in if rest = [] then normalize_message m
                       else titlecase (hd rest) @ tl rest))"
proof (intro impI, elim conjE)
  assume q: "question_number st = Some 0"
  have "extract_symptom (normalize_message m) =
          (case find (\<lambda>(label, patterns).
                            \<exists>p \<in> set patterns. str_contains p (lower (normalize_message m)))
                     symptom_patterns of
                 Some (label, patterns) \<Rightarrow> label
               | None \<Rightarrow>
                   (let text = strip (lower (normalize_message m));
                        rest = (case find (\<lambda>p. prefix p text) prefixes_to_remove of
                                  Some p \<Rightarrow> strip (drop (length p) text)
                                | None \<Rightarrow> text)
                    in if rest = [] then normalize_message m
                       else titlecase (hd rest) @ tl rest))"
    by (auto simp: extract_symptom_def first_group_find clean_symptom_text_find Let_def
             split: option.splits)
  then show "question_number (conversation_state (process_message m st g)) = Some 1
     \<and> is_complete (conversation_state (process_message m st g)) = is_complete st
     \<and> answers (conversation_state (process_message m st g)) = answers st
     \<and> initial_symptom (conversation_state (process_message m st g)) =
         Some (case find (\<lambda>(label, patterns).
                            \<exists>p \<in> set patterns. str_contains p (lower (normalize_message m)))
                     symptom_patterns of
                 Some (label, patterns) \<Rightarrow> label
               | None \<Rightarrow>
                   (let text = strip (lower (normalize_message m));
                        rest = (case find (\<lambda>p. prefix p text) prefixes_to_remove of
                                  Some p \<Rightarrow> strip (drop (length p) text)
                                | None \<Rightarrow> text)
                    in if rest = [] then normalize_message m
                       else titlecase (hd rest) @ tl rest))"
    using q by (simp add: process_message_initial)
qed

text \<open>
  The theorem at the first message of the example conversation, and at two messages that
  match no group: one with a no-break space after the leading phrase, one that is the
  single letter U+00E9.
\<close>

theorem initial_symptom_turn_witness:
  "question_number (create_new_conversation unary_lib 0) = Some 0
   \<and> CHR 0xB5 \<notin> set ''I have a headache'' \<and> CHR 0xFF \<notin> set ''I have a headache''
   \<and> question_number
        (conversation_state
           (process_message ''I have a headache'' (create_new_conversation unary_lib 0)
              offline_client)) = Some 1
   \<and> is_complete
        (conversation_state
           (process_message ''I have a headache'' (create_new_conversation unary_lib 0)
              offline_client)) = Some False
   \<and> initial_symptom
        (conversation_state
           (process_message ''I have a headache'' (create_new_conversation unary_lib 0)
              offline_client)) = Some ''headache''
   \<and> initial_symptom
        (conversation_state
           (process_message (''i'' @ [CHR 0xA0] @ ''have a cold'')
              (create_new_conversation unary_lib 0) offline_client)) = Some ''A cold''
   \<and> initial_symptom
        (conversation_state
           (process_message [CHR 0xE9] (create_new_conversation unary_lib 0) offline_client))
       = Some [CHR 0xC9]"
proof -
  have n: "normalize_message ''I have a headache'' = ''I have a headache''" by code_simp
  have f: "find (\<lambda>(label, patterns).
                   \<exists>p \<in> set patterns. str_contains p (lower ''I have a headache''))
             symptom_patterns
           = Some (''headache'', [''headache'', ''head pain'', ''head ache'', ''migraine''])"
    by code_simp
  have a: "initial_symptom
        (conversation_state
           (process_message ''I have a headache'' (create_new_conversation unary_lib 0)
              offline_client)) = Some ''headache''"
    using initial_symptom_turn
      [where st = "create_new_conversation unary_lib 0" and m = "''I have a headache''"
         and g = offline_client]
    by (simp add: n f create_new_conversation_def)
  have b: "initial_symptom
        (conversation_state
           (process_message (''i'' @ [CHR 0xA0] @ ''have a cold'')
              (create_new_conversation unary_lib 0) offline_client)) = Some ''A cold''"
    by code_simp
  have c: "initial_symptom
        (conversation_state
           (process_message [CHR 0xE9] (create_new_conversation unary_lib 0) offline_client))
       = Some [CHR 0xC9]"
    by code_simp
  show ?thesis
    using a b c initial_symptom_turn
      [where st = "create_new_conversation unary_lib 0" and m = "''I have a headache''"
         and g = offline_client]
    by (simp add: n f create_new_conversation_def)
qed

text \<open>
  C6 as stated fails: the message \<open>i have\<close> matches no group and starts with the phrase
  \<open>i have\<close>; what is left after the phrase is empty, and the initial symptom is the whole
  message, not that empty rest capitalized.
\<close>

theorem initial_symptom_counterexample:
  "first_group symptom_patterns (lower ''i have'') = None
   \<and> prefix ''i have'' (lower ''i have'')
   \<and> initial_symptom
        (conversation_state
           (process_message ''i have'' (create_new_conversation unary_lib 0) offline_client))
       = Some ''i have''
   \<and> initial_symptom
        (conversation_state
           (process_message ''i have'' (create_new_conversation unary_lib 0) offline_client))
       \<noteq> Some (capitalize (drop (length ''i have'') ''i have''))"
proof -
  have "conversation_state
           (process_message ''i have'' (create_new_conversation unary_lib 0) offline_client)
        = \<lparr>question_number = Some 1, is_complete = Some False,
           initial_symptom = Some ''i have'', answers = Some [],
           created_at = Some [], last_updated = Some []\<rparr>"
    by code_simp
  moreover have "first_group symptom_patterns (lower ''i have'') = None" by code_simp
  moreover have "prefix ''i have'' (lower ''i have'')" by code_simp
  ultimately show ?thesis by simp
qed

section \<open>Expiry of a session\<close>









section \<open>The conversation history of the audio service\<close>

lemma update_conversation_history_drop:
  "update_conversation_history h user_input reply =
     drop (length h + 2 - 20)
       (h @ [\<lparr>role = ''user'', content = user_input\<rparr>,
             \<lparr>role = ''assistant'', content = reply\<rparr>])"
  by (simp add: update_conversation_history_def Let_def)

lemma length_update_conversation_history:
  "length (update_conversation_history h user_input reply) \<le> 20"
  by (simp add: update_conversation_history_def Let_def)

lemma path_turn_history:
  "fst (process_audio_conversation svc h path language) =
     (if success (snd (process_audio_conversation svc h path language))
      then update_conversation_history h
             (transcribed_text (snd (process_audio_conversation svc h path language)))
             (ai_response (snd (process_audio_conversation svc h path language)))
      else h)"
  by (simp add: process_audio_conversation_def Let_def split: outcome.splits option.splits)

lemma bytes_turn_history:
  "fst (process_audio_conversation_from_bytes svc h audio language) =
     (if success (snd (process_audio_conversation_from_bytes svc h audio language))
      then update_conversation_history h
             (transcribed_text (snd (process_audio_conversation_from_bytes svc h audio language)))
             (ai_response (snd (process_audio_conversation_from_bytes svc h audio language)))
      else h)"
  by (simp add: process_audio_conversation_from_bytes_def Let_def
           split: outcome.splits option.splits)

lemma audio_turn_history_bounded:
  "length h \<le> 20 \<Longrightarrow> length (audio_turn_history t h) \<le> 20"
proof (cases t)
  case (FromPath svc path language)
  assume "length h \<le> 20"
  then show ?thesis
    using path_turn_history[of svc h path language] length_update_conversation_history
    by (simp add: FromPath)
next
  case (FromBytes svc audio language)
  assume "length h \<le> 20"
  then show ?thesis
    using bytes_turn_history[of svc h audio language] length_update_conversation_history
    by (simp add: FromBytes)
qed

lemma run_audio_turns_bounded:
  "length h \<le> 20 \<Longrightarrow> length (run_audio_turns turns h) \<le> 20"
  by (induction turns arbitrary: h) (simp_all add: audio_turn_history_bounded)

lemma generate_audio_response_Some:
  "generate_audio_response svc text = Some out
   \<longleftrightarrow> named_temporary_file svc = Inr out
       \<and> (\<exists>speech. text_to_speech (elevenlabs_service svc) text (Some out)
                       = Returns (Some speech) \<and> speech \<noteq> [])"
  by (auto simp: generate_audio_response_def split: sum.splits outcome.splits option.splits)

text \<open>A turn in which the three stages give results that are not empty.\<close>

lemma bytes_turn_success:
  assumes "transcribe_audio_from_bytes (azure_speech svc) audio language
             = Returns (Some transcript)" "transcript \<noteq> []"
    and "generate_audio_conversation_response (groq_client svc) transcript h
             = Returns (Some reply)" "reply \<noteq> []"
    and "text_to_speech (elevenlabs_service svc) reply None = Returns (Some speech)"
        "speech \<noteq> []"
  shows "process_audio_conversation_from_bytes svc h audio language
           = (update_conversation_history h transcript reply,
              \<lparr>success = True, transcribed_text = transcript, ai_response = reply,
               error = [], audio_response_bytes = speech\<rparr>)"
  using assms by (simp add: process_audio_conversation_from_bytes_def Let_def)

lemma path_turn_success:
  assumes "transcribe_audio (azure_speech svc) path language = Returns (Some transcript)"
        "transcript \<noteq> []"
    and "generate_audio_conversation_response (groq_client svc) transcript h
             = Returns (Some reply)" "reply \<noteq> []"
    and "named_temporary_file svc = Inr out" "out \<noteq> []"
    and "text_to_speech (elevenlabs_service svc) reply (Some out) = Returns (Some speech)"
        "speech \<noteq> []"
  shows "process_audio_conversation svc h path language
           = (update_conversation_history h transcript reply,
              \<lparr>success = True, transcribed_text = transcript, ai_response = reply,
               error = [], audio_response_path = out\<rparr>)"
  using assms
  by (simp add: process_audio_conversation_def generate_audio_response_def Let_def)

text \<open>A turn that reports success has had three such stages.\<close>

lemma bytes_success_stages:
  "success (snd (process_audio_conversation_from_bytes svc h audio language))
   \<Longrightarrow> \<exists>transcript reply speech.
         transcribe_audio_from_bytes (azure_speech svc) audio language
           = Returns (Some transcript) \<and> transcript \<noteq> []
       \<and> generate_audio_conversation_response (groq_client svc) transcript h
           = Returns (Some reply) \<and> reply \<noteq> []
       \<and> text_to_speech (elevenlabs_service svc) reply None = Returns (Some speech)
       \<and> speech \<noteq> []"
  by (auto simp: process_audio_conversation_from_bytes_def Let_def
           split: outcome.splits option.splits if_splits)

lemma path_success_stages:
  "success (snd (process_audio_conversation svc h path language))
   \<Longrightarrow> \<exists>transcript reply out speech.
         transcribe_audio (azure_speech svc) path language = Returns (Some transcript)
       \<and> transcript \<noteq> []
       \<and> generate_audio_conversation_response (groq_client svc) transcript h
           = Returns (Some reply) \<and> reply \<noteq> []
       \<and> named_temporary_file svc = Inr out \<and> out \<noteq> []
       \<and> text_to_speech (elevenlabs_service svc) reply (Some out) = Returns (Some speech)
       \<and> speech \<noteq> []"
  by (auto simp: process_audio_conversation_def Let_def generate_audio_response_Some
           split: outcome.splits option.splits if_splits)

lemma working_bytes_turn:
  "process_audio_conversation_from_bytes working_services h ''m4a'' ''en-US'' =
     (update_conversation_history h ''I have a cough'' ''How long have you had it?'',
      \<lparr>success = True, transcribed_text = ''I have a cough'',
       ai_response = ''How long have you had it?'', error = [],
       audio_response_bytes = ''mp3''\<rparr>)"
  by (simp add: process_audio_conversation_from_bytes_def working_services_def Let_def)

lemma mute_path_turn:
  "process_audio_conversation mute_services h ''in.m4a'' ''en-US'' =
     (h, \<lparr>success = False, transcribed_text = ''I have a cough'',
          ai_response = ''How long have you had it?'',
          error = ''Failed to generate audio response'', audio_response_path = []\<rparr>)"
  by (simp add: process_audio_conversation_def generate_audio_response_def mute_services_def
        working_services_def Let_def)

lemma working_path_turn:
  "process_audio_conversation working_services h ''in.m4a'' ''en-US'' =
     (update_conversation_history h ''I have a cough'' ''How long have you had it?'',
      \<lparr>success = True, transcribed_text = ''I have a cough'',
       ai_response = ''How long have you had it?'', error = [],
       audio_response_path = ''/tmp/reply.mp3''\<rparr>)"
  by (simp add: process_audio_conversation_def generate_audio_response_def
        working_services_def Let_def)

lemma length_full_history: "length full_history = 20"
  by code_simp

text \<open>
  C7. The history of a service object, empty at first, has at most twenty entries after
  any sequence of audio turns. In either entry point, a turn in which the three stages
  give results that are not empty reports success, appends the transcript as the user's
  entry and the reply as the assistant's entry, and keeps the last twenty entries of the
  result; a turn in which some stage gives no such result appends nothing. The same in
  terms of the result: a turn that does not report success leaves the history as it was,
  and one that reports success has appended the transcript and the reply of its result
  and kept the last twenty entries.
\<close>

theorem conversation_history_bounded:
  "length (run_audio_turns turns []) \<le> 20
   \<and> (transcribe_audio_from_bytes (azure_speech svc) audio language
         = Returns (Some transcript) \<and> transcript \<noteq> []
       \<and> generate_audio_conversation_response (groq_client svc) transcript h
           = Returns (Some reply) \<and> reply \<noteq> []
       \<and> text_to_speech (elevenlabs_service svc) reply None = Returns (Some speech)
       \<and> speech \<noteq> []
      \<longrightarrow> process_audio_conversation_from_bytes svc h audio language
            = (drop (length h + 2 - 20)
                 (h @ [\<lparr>role = ''user'', content = transcript\<rparr>,
                       \<lparr>role = ''assistant'', content = reply\<rparr>]),
               \<lparr>success = True, transcribed_text = transcript, ai_response = reply,
                error = [], audio_response_bytes = speech\<rparr>))
   \<and> (transcribe_audio (azure_speech svc) path language = Returns (Some transcript)
       \<and> transcript \<noteq> []
       \<and> generate_audio_conversation_response (groq_client svc) transcript h
           = Returns (Some reply) \<and> reply \<noteq> []
       \<and> named_temporary_file svc = Inr out \<and> out \<noteq> []
       \<and> text_to_speech (elevenlabs_service svc) reply (Some out) = Returns (Some speech)
       \<and> speech \<noteq> []
      \<longrightarrow> process_audio_conversation svc h path language
            = (drop (length h + 2 - 20)
                 (h @ [\<lparr>role = ''user'', content = transcript\<rparr>,
                       \<lparr>role = ''assistant'', content = reply\<rparr>]),
               \<lparr>success = True, transcribed_text = transcript, ai_response = reply,
                error = [], audio_response_path = out\<rparr>))
   \<and> (\<not> (\<exists>transcript reply speech.
             transcribe_audio_from_bytes (azure_speech svc) audio language
               = Returns (Some transcript) \<and> transcript \<noteq> []
           \<and> generate_audio_conversation_response (groq_client svc) transcript h
               = Returns (Some reply) \<and> reply \<noteq> []
           \<and> text_to_speech (elevenlabs_service svc) reply None = Returns (Some speech)
           \<and> speech \<noteq> [])
      \<longrightarrow> fst (process_audio_conversation_from_bytes svc h audio language) = h)
   \<and> (\<not> (\<exists>transcript reply out speech.
             transcribe_audio (azure_speech svc) path language = Returns (Some transcript)
           \<and> transcript \<noteq> []
           \<and> generate_audio_conversation_response (groq_client svc) transcript h
               = Returns (Some reply) \<and> reply \<noteq> []
           \<and> named_temporary_file svc = Inr out \<and> out \<noteq> []
           \<and> text_to_speech (elevenlabs_service svc) reply (Some out)
               = Returns (Some speech)
           \<and> speech \<noteq> [])
      \<longrightarrow> fst (process_audio_conversation svc h path language) = h)
   \<and> (\<not> success (snd (process_audio_conversation svc h path language))
      \<longrightarrow> fst (process_audio_conversation svc h path language) = h)
   \<and> (success (snd (process_audio_conversation svc h path language))
      \<longrightarrow> fst (process_audio_conversation svc h path language)
            = drop (length h + 2 - 20)
                (h @ [\<lparr>role = ''user'',
                        content = transcribed_text
                                    (snd (process_audio_conversation svc h path language))\<rparr>,
                      \<lparr>role = ''assistant'',
                        content = ai_response
                                    (snd (process_audio_conversation svc h path language))\<rparr>]))
   \<and> (\<not> success (snd (process_audio_conversation_from_bytes svc h audio language))
      \<longrightarrow> fst (process_audio_conversation_from_bytes svc h audio language) = h)
   \<and> (success (snd (process_audio_conversation_from_bytes svc h audio language))
      \<longrightarrow> fst (process_audio_conversation_from_bytes svc h audio language)
            = drop (length h + 2 - 20)
                (h @ [\<lparr>role = ''user'',
                        content = transcribed_text
                          (snd (process_audio_conversation_from_bytes svc h audio language))\<rparr>,
                      \<lparr>role = ''assistant'',
                        content = ai_response
                          (snd (process_audio_conversation_from_bytes svc h audio language))\<rparr>]))"
proof -
  have a: "length (run_audio_turns turns []) \<le> 20"
    by (rule run_audio_turns_bounded) simp
  have b: "transcribe_audio_from_bytes (azure_speech svc) audio language
         = Returns (Some transcript) \<and> transcript \<noteq> []
       \<and> generate_audio_conversation_response (groq_client svc) transcript h
           = Returns (Some reply) \<and> reply \<noteq> []
       \<and> text_to_speech (elevenlabs_service svc) reply None = Returns (Some speech)
       \<and> speech \<noteq> []
      \<longrightarrow> process_audio_conversation_from_bytes svc h audio language
            = (drop (length h + 2 - 20)
                 (h @ [\<lparr>role = ''user'', content = transcript\<rparr>,
                       \<lparr>role = ''assistant'', content = reply\<rparr>]),
               \<lparr>success = True, transcribed_text = transcript, ai_response = reply,
                error = [], audio_response_bytes = speech\<rparr>)"
    using bytes_turn_success[of svc audio language transcript h reply speech]
    by (simp add: update_conversation_history_drop)
  have c: "transcribe_audio (azure_speech svc) path language = Returns (Some transcript)
       \<and> transcript \<noteq> []
       \<and> generate_audio_conversation_response (groq_client svc) transcript h
           = Returns (Some reply) \<and> reply \<noteq> []
       \<and> named_temporary_file svc = Inr out \<and> out \<noteq> []
       \<and> text_to_speech (elevenlabs_service svc) reply (Some out) = Returns (Some speech)
       \<and> speech \<noteq> []
      \<longrightarrow> process_audio_conversation svc h path language
            = (drop (length h + 2 - 20)
                 (h @ [\<lparr>role = ''user'', content = transcript\<rparr>,
                       \<lparr>role = ''assistant'', content = reply\<rparr>]),
               \<lparr>success = True, transcribed_text = transcript, ai_response = reply,
                error = [], audio_response_path = out\<rparr>)"
    using path_turn_success[of svc path language transcript h reply out speech]
    by (simp add: update_conversation_history_drop)
  have d: "\<not> (\<exists>transcript reply speech.
             transcribe_audio_from_bytes (azure_speech svc) audio language
               = Returns (Some transcript) \<and> transcript \<noteq> []
           \<and> generate_audio_conversation_response (groq_client svc) transcript h
               = Returns (Some reply) \<and> reply \<noteq> []
           \<and> text_to_speech (elevenlabs_service svc) reply None = Returns (Some speech)
           \<and> speech \<noteq> [])
      \<longrightarrow> fst (process_audio_conversation_from_bytes svc h audio language) = h"
    using bytes_success_stages[of svc h audio language]
      bytes_turn_history[of svc h audio language] by auto
  have e: "\<not> (\<exists>transcript reply out speech.
             transcribe_audio (azure_speech svc) path language = Returns (Some transcript)
           \<and> transcript \<noteq> []
           \<and> generate_audio_conversation_response (groq_client svc) transcript h
               = Returns (Some reply) \<and> reply \<noteq> []
           \<and> named_temporary_file svc = Inr out \<and> out \<noteq> []
           \<and> text_to_speech (elevenlabs_service svc) reply (Some out)
               = Returns (Some speech)
           \<and> speech \<noteq> [])
      \<longrightarrow> fst (process_audio_conversation svc h path language) = h"
    using path_success_stages[of svc h path language]
      path_turn_history[of svc h path language] by auto
  have f: "(\<not> success (snd (process_audio_conversation svc h path language))
      \<longrightarrow> fst (process_audio_conversation svc h path language) = h)
   \<and> (success (snd (process_audio_conversation svc h path language))
      \<longrightarrow> fst (process_audio_conversation svc h path language)
            = drop (length h + 2 - 20)
                (h @ [\<lparr>role = ''user'',
                        content = transcribed_text
                                    (snd (process_audio_conversation svc h path language))\<rparr>,
                      \<lparr>role = ''assistant'',
                        content = ai_response
                                    (snd (process_audio_conversation svc h path language))\<rparr>]))"
    using path_turn_history[of svc h path language]
    by (simp add: update_conversation_history_drop)
  have g: "(\<not> success (snd (process_audio_conversation_from_bytes svc h audio language))
      \<longrightarrow> fst (process_audio_conversation_from_bytes svc h audio language) = h)
   \<and> (success (snd (process_audio_conversation_from_bytes svc h audio language))
      \<longrightarrow> fst (process_audio_conversation_from_bytes svc h audio language)
            = drop (length h + 2 - 20)
                (h @ [\<lparr>role = ''user'',
                        content = transcribed_text
                          (snd (process_audio_conversation_from_bytes svc h audio language))\<rparr>,
                      \<lparr>role = ''assistant'',
                        content = ai_response
                          (snd (process_audio_conversation_from_bytes svc h audio language))\<rparr>]))"
    using bytes_turn_history[of svc h audio language]
    by (simp add: update_conversation_history_drop)
  from a b c d e f g show ?thesis by blast
qed

text \<open>
  The theorem at a turn from a file that succeeds on a history of twenty entries, of which
  the two oldest are dropped, at a turn whose speech synthesis fails, and after eleven
  turns that succeed.
\<close>

theorem conversation_history_bounded_witness:
  "transcribe_audio (azure_speech working_services) ''in.m4a'' ''en-US''
     = Returns (Some ''I have a cough'')
   \<and> ''I have a cough'' \<noteq> []
   \<and> generate_audio_conversation_response (groq_client working_services)
        ''I have a cough'' full_history = Returns (Some ''How long have you had it?'')
   \<and> ''How long have you had it?'' \<noteq> []
   \<and> named_temporary_file working_services = Inr ''/tmp/reply.mp3''
   \<and> ''/tmp/reply.mp3'' \<noteq> []
   \<and> text_to_speech (elevenlabs_service working_services) ''How long have you had it?''
        (Some ''/tmp/reply.mp3'') = Returns (Some ''mp3'')
   \<and> ''mp3'' \<noteq> []
   \<and> length full_history = 20
   \<and> process_audio_conversation working_services full_history ''in.m4a'' ''en-US''
       = (drop 2 full_history
            @ [\<lparr>role = ''user'', content = ''I have a cough''\<rparr>,
               \<lparr>role = ''assistant'', content = ''How long have you had it?''\<rparr>],
          \<lparr>success = True, transcribed_text = ''I have a cough'',
           ai_response = ''How long have you had it?'', error = [],
           audio_response_path = ''/tmp/reply.mp3''\<rparr>)
   \<and> length (fst (process_audio_conversation working_services full_history
                     ''in.m4a'' ''en-US'')) = 20
   \<and> \<not> success (snd (process_audio_conversation_from_bytes mute_services full_history
                          ''m4a'' ''en-US''))
   \<and> fst (process_audio_conversation_from_bytes mute_services full_history ''m4a'' ''en-US'')
       = full_history
   \<and> length (run_audio_turns
                (replicate 11 (FromBytes working_services ''m4a'' ''en-US'')) []) = 20"
proof -
  have t: "transcribe_audio (azure_speech working_services) ''in.m4a'' ''en-US''
             = Returns (Some ''I have a cough'')"
    by (simp add: working_services_def)
  have r: "generate_audio_conversation_response (groq_client working_services)
             ''I have a cough'' full_history = Returns (Some ''How long have you had it?'')"
    by (simp add: working_services_def)
  have n: "named_temporary_file working_services = Inr ''/tmp/reply.mp3''"
    by (simp add: working_services_def)
  have s: "text_to_speech (elevenlabs_service working_services) ''How long have you had it?''
             (Some ''/tmp/reply.mp3'') = Returns (Some ''mp3'')"
    by (simp add: working_services_def)
  have l: "length full_history = 20" by (rule length_full_history)
  have p: "process_audio_conversation working_services full_history ''in.m4a'' ''en-US''
       = (drop 2 full_history
            @ [\<lparr>role = ''user'', content = ''I have a cough''\<rparr>,
               \<lparr>role = ''assistant'', content = ''How long have you had it?''\<rparr>],
          \<lparr>success = True, transcribed_text = ''I have a cough'',
           ai_response = ''How long have you had it?'', error = [],
           audio_response_path = ''/tmp/reply.mp3''\<rparr>)"
    using t r n s l conversation_history_bounded
      [where svc = working_services and h = full_history and path = "''in.m4a''"
         and language = "''en-US''" and transcript = "''I have a cough''"
         and reply = "''How long have you had it?''" and out = "''/tmp/reply.mp3''"
         and speech = "''mp3''" and audio = "[]" and turns = "[]",
       THEN conjunct2, THEN conjunct2, THEN conjunct1]
    by simp
  have m: "text_to_speech (elevenlabs_service mute_services) ''How long have you had it?''
             None = Returns None"
    by (simp add: mute_services_def)
  have mt: "transcribe_audio_from_bytes (azure_speech mute_services) ''m4a'' ''en-US''
             = Returns (Some ''I have a cough'')"
    by (simp add: mute_services_def working_services_def)
  have mr: "generate_audio_conversation_response (groq_client mute_services)
             ''I have a cough'' full_history = Returns (Some ''How long have you had it?'')"
    by (simp add: mute_services_def working_services_def)
  have q: "fst (process_audio_conversation_from_bytes mute_services full_history
                  ''m4a'' ''en-US'') = full_history"
    using m mt mr conversation_history_bounded
      [where svc = mute_services and h = full_history and audio = "''m4a''"
         and language = "''en-US''" and turns = "[]" and path = "[]"
         and transcript = "[]" and reply = "[]" and out = "[]" and speech = "[]",
       THEN conjunct2, THEN conjunct2, THEN conjunct2, THEN conjunct1]
    by simp
  have u: "\<not> success (snd (process_audio_conversation_from_bytes mute_services full_history
                          ''m4a'' ''en-US''))"
    using m mt mr
    by (simp add: process_audio_conversation_from_bytes_def Let_def)
  have e: "length (run_audio_turns
                (replicate 11 (FromBytes working_services ''m4a'' ''en-US'')) []) = 20"
    by code_simp
  show ?thesis using t r n s l p q u e by simp
qed

section \<open>The stages of an audio turn\<close>

text \<open>
  C8. A stage fails when its service returns \<open>None\<close> or an empty result. In either entry
  point, when the transcription fails, the result names that stage and has no transcript
  and no reply; when the response generation fails, the result names that stage and keeps
  the transcript; when the speech synthesis fails, the result names that stage and keeps
  the transcript and the reply. A service that raises is answered by the \<open>except\<close> clause,
  with the text of the exception as the error and the same partial results. In all these
  cases success is false and the history is as it was; a result that reports success has
  the transcript, the reply and the audio (or the path of the audio file) that the three
  stages produced, none of them empty.
\<close>

theorem audio_turn_stages:
  "((transcribe_audio_from_bytes (azure_speech svc) audio language = Returns t
      \<and> (t = None \<or> t = Some [])
    \<longrightarrow> process_audio_conversation_from_bytes svc h audio language
          = (h, \<lparr>success = False, transcribed_text = [], ai_response = [],
                 error = ''Failed to transcribe audio'', audio_response_bytes = []\<rparr>))
   \<and> (transcribe_audio_from_bytes (azure_speech svc) audio language = Raises e
      \<longrightarrow> process_audio_conversation_from_bytes svc h audio language
            = (h, \<lparr>success = False, transcribed_text = [], ai_response = [],
                   error = processing_error e, audio_response_bytes = []\<rparr>))
   \<and> (transcribe_audio_from_bytes (azure_speech svc) audio language = Returns (Some transcript)
        \<and> transcript \<noteq> []
      \<longrightarrow> (generate_audio_conversation_response (groq_client svc) transcript h = Returns r
              \<and> (r = None \<or> r = Some [])
            \<longrightarrow> process_audio_conversation_from_bytes svc h audio language
                  = (h, \<lparr>success = False, transcribed_text = transcript, ai_response = [],
                         error = ''Failed to generate AI response'',
                         audio_response_bytes = []\<rparr>))
          \<and> (generate_audio_conversation_response (groq_client svc) transcript h = Raises e
            \<longrightarrow> process_audio_conversation_from_bytes svc h audio language
                  = (h, \<lparr>success = False, transcribed_text = transcript, ai_response = [],
                         error = processing_error e, audio_response_bytes = []\<rparr>))
          \<and> (generate_audio_conversation_response (groq_client svc) transcript h
                = Returns (Some reply) \<and> reply \<noteq> []
            \<longrightarrow> (text_to_speech (elevenlabs_service svc) reply None = Returns a
                    \<and> (a = None \<or> a = Some [])
                  \<longrightarrow> process_audio_conversation_from_bytes svc h audio language
                        = (h, \<lparr>success = False, transcribed_text = transcript,
                               ai_response = reply,
                               error = ''Failed to generate audio response'',
                               audio_response_bytes = []\<rparr>))
                \<and> (text_to_speech (elevenlabs_service svc) reply None = Raises e
                  \<longrightarrow> process_audio_conversation_from_bytes svc h audio language
                        = (h, \<lparr>success = False, transcribed_text = transcript,
                               ai_response = reply, error = processing_error e,
                               audio_response_bytes = []\<rparr>))))
   \<and> (success (snd (process_audio_conversation_from_bytes svc h audio language))
      \<longrightarrow> (\<exists>transcript reply speech.
              transcribe_audio_from_bytes (azure_speech svc) audio language
                = Returns (Some transcript) \<and> transcript \<noteq> []
            \<and> generate_audio_conversation_response (groq_client svc) transcript h
                = Returns (Some reply) \<and> reply \<noteq> []
            \<and> text_to_speech (elevenlabs_service svc) reply None = Returns (Some speech)
            \<and> speech \<noteq> []
            \<and> snd (process_audio_conversation_from_bytes svc h audio language)
                = \<lparr>success = True, transcribed_text = transcript, ai_response = reply,
                   error = [], audio_response_bytes = speech\<rparr>)))
   \<and> ((transcribe_audio (azure_speech svc) path language = Returns t
      \<and> (t = None \<or> t = Some [])
    \<longrightarrow> process_audio_conversation svc h path language
          = (h, \<lparr>success = False, transcribed_text = [], ai_response = [],
                 error = ''Failed to transcribe audio'', audio_response_path = []\<rparr>))
   \<and> (transcribe_audio (azure_speech svc) path language = Raises e
      \<longrightarrow> process_audio_conversation svc h path language
            = (h, \<lparr>success = False, transcribed_text = [], ai_response = [],
                   error = processing_error e, audio_response_path = []\<rparr>))
   \<and> (transcribe_audio (azure_speech svc) path language = Returns (Some transcript)
        \<and> transcript \<noteq> []
      \<longrightarrow> (generate_audio_conversation_response (groq_client svc) transcript h = Returns r
              \<and> (r = None \<or> r = Some [])
            \<longrightarrow> process_audio_conversation svc h path language
                  = (h, \<lparr>success = False, transcribed_text = transcript, ai_response = [],
                         error = ''Failed to generate AI response'',
                         audio_response_path = []\<rparr>))
          \<and> (generate_audio_conversation_response (groq_client svc) transcript h = Raises e
            \<longrightarrow> process_audio_conversation svc h path language
                  = (h, \<lparr>success = False, transcribed_text = transcript, ai_response = [],
                         error = processing_error e, audio_response_path = []\<rparr>))
          \<and> (generate_audio_conversation_response (groq_client svc) transcript h
                = Returns (Some reply) \<and> reply \<noteq> []
              \<and> (generate_audio_response svc reply = None
                 \<or> generate_audio_response svc reply = Some [])
            \<longrightarrow> process_audio_conversation svc h path language
                  = (h, \<lparr>success = False, transcribed_text = transcript,
                         ai_response = reply,
                         error = ''Failed to generate audio response'',
                         audio_response_path = []\<rparr>)))
   \<and> (success (snd (process_audio_conversation svc h path language))
      \<longrightarrow> (\<exists>transcript reply out speech.
              transcribe_audio (azure_speech svc) path language
                = Returns (Some transcript) \<and> transcript \<noteq> []
            \<and> generate_audio_conversation_response (groq_client svc) transcript h
                = Returns (Some reply) \<and> reply \<noteq> []
            \<and> named_temporary_file svc = Inr out \<and> out \<noteq> []
            \<and> text_to_speech (elevenlabs_service svc) reply (Some out) = Returns (Some speech)
            \<and> speech \<noteq> []
            \<and> snd (process_audio_conversation svc h path language)
                = \<lparr>success = True, transcribed_text = transcript, ai_response = reply,
                   error = [], audio_response_path = out\<rparr>)))"
proof -
  have a: "transcribe_audio_from_bytes (azure_speech svc) audio language = Returns t
      \<and> (t = None \<or> t = Some [])
    \<longrightarrow> process_audio_conversation_from_bytes svc h audio language
          = (h, \<lparr>success = False, transcribed_text = [], ai_response = [],
                 error = ''Failed to transcribe audio'', audio_response_bytes = []\<rparr>)"
    by (auto simp: process_audio_conversation_from_bytes_def Let_def)
  have b: "transcribe_audio_from_bytes (azure_speech svc) audio language = Raises e
      \<longrightarrow> process_audio_conversation_from_bytes svc h audio language
            = (h, \<lparr>success = False, transcribed_text = [], ai_response = [],
                   error = processing_error e, audio_response_bytes = []\<rparr>)"
    by (simp add: process_audio_conversation_from_bytes_def Let_def)
  have c: "transcribe_audio_from_bytes (azure_speech svc) audio language = Returns (Some transcript)
        \<and> transcript \<noteq> []
      \<longrightarrow> (generate_audio_conversation_response (groq_client svc) transcript h = Returns r
              \<and> (r = None \<or> r = Some [])
            \<longrightarrow> process_audio_conversation_from_bytes svc h audio language
                  = (h, \<lparr>success = False, transcribed_text = transcript, ai_response = [],
                         error = ''Failed to generate AI response'',
                         audio_response_bytes = []\<rparr>))
          \<and> (generate_audio_conversation_response (groq_client svc) transcript h = Raises e
            \<longrightarrow> process_audio_conversation_from_bytes svc h audio language
                  = (h, \<lparr>success = False, transcribed_text = transcript, ai_response = [],
                         error = processing_error e, audio_response_bytes = []\<rparr>))
          \<and> (generate_audio_conversation_response (groq_client svc) transcript h
                = Returns (Some reply) \<and> reply \<noteq> []
            \<longrightarrow> (text_to_speech (elevenlabs_service svc) reply None = Returns a
                    \<and> (a = None \<or> a = Some [])
                  \<longrightarrow> process_audio_conversation_from_bytes svc h audio language
                        = (h, \<lparr>success = False, transcribed_text = transcript,
                               ai_response = reply,
                               error = ''Failed to generate audio response'',
                               audio_response_bytes = []\<rparr>))
                \<and> (text_to_speech (elevenlabs_service svc) reply None = Raises e
                  \<longrightarrow> process_audio_conversation_from_bytes svc h audio language
                        = (h, \<lparr>success = False, transcribed_text = transcript,
                               ai_response = reply, error = processing_error e,
                               audio_response_bytes = []\<rparr>)))"
    by (auto simp: process_audio_conversation_from_bytes_def Let_def)
  have d: "success (snd (process_audio_conversation_from_bytes svc h audio language))
      \<longrightarrow> (\<exists>transcript reply speech.
              transcribe_audio_from_bytes (azure_speech svc) audio language
                = Returns (Some transcript) \<and> transcript \<noteq> []
            \<and> generate_audio_conversation_response (groq_client svc) transcript h
                = Returns (Some reply) \<and> reply \<noteq> []
            \<and> text_to_speech (elevenlabs_service svc) reply None = Returns (Some speech)
            \<and> speech \<noteq> []
            \<and> snd (process_audio_conversation_from_bytes svc h audio language)
                = \<lparr>success = True, transcribed_text = transcript, ai_response = reply,
                   error = [], audio_response_bytes = speech\<rparr>)"
    by (auto simp: process_audio_conversation_from_bytes_def Let_def
             split: outcome.splits option.splits if_splits)
  have a': "transcribe_audio (azure_speech svc) path language = Returns t
      \<and> (t = None \<or> t = Some [])
    \<longrightarrow> process_audio_conversation svc h path language
          = (h, \<lparr>success = False, transcribed_text = [], ai_response = [],
                 error = ''Failed to transcribe audio'', audio_response_path = []\<rparr>)"
    by (auto simp: process_audio_conversation_def Let_def)
  have b': "transcribe_audio (azure_speech svc) path language = Raises e
      \<longrightarrow> process_audio_conversation svc h path language
            = (h, \<lparr>success = False, transcribed_text = [], ai_response = [],
                   error = processing_error e, audio_response_path = []\<rparr>)"
    by (simp add: process_audio_conversation_def Let_def)
  have c': "transcribe_audio (azure_speech svc) path language = Returns (Some transcript)
        \<and> transcript \<noteq> []
      \<longrightarrow> (generate_audio_conversation_response (groq_client svc) transcript h = Returns r
              \<and> (r = None \<or> r = Some [])
            \<longrightarrow> process_audio_conversation svc h path language
                  = (h, \<lparr>success = False, transcribed_text = transcript, ai_response = [],
                         error = ''Failed to generate AI response'',
                         audio_response_path = []\<rparr>))
          \<and> (generate_audio_conversation_response (groq_client svc) transcript h = Raises e
            \<longrightarrow> process_audio_conversation svc h path language
                  = (h, \<lparr>success = False, transcribed_text = transcript, ai_response = [],
                         error = processing_error e, audio_response_path = []\<rparr>))
          \<and> (generate_audio_conversation_response (groq_client svc) transcript h
                = Returns (Some reply) \<and> reply \<noteq> []
              \<and> (generate_audio_response svc reply = None
                 \<or> generate_audio_response svc reply = Some [])
            \<longrightarrow> process_audio_conversation svc h path language
                  = (h, \<lparr>success = False, transcribed_text = transcript,
                         ai_response = reply,
                         error = ''Failed to generate audio response'',
                         audio_response_path = []\<rparr>))"
    by (auto simp: process_audio_conversation_def Let_def)
  have d': "success (snd (process_audio_conversation svc h path language))
      \<longrightarrow> (\<exists>transcript reply out speech.
              transcribe_audio (azure_speech svc) path language
                = Returns (Some transcript) \<and> transcript \<noteq> []
            \<and> generate_audio_conversation_response (groq_client svc) transcript h
                = Returns (Some reply) \<and> reply \<noteq> []
            \<and> named_temporary_file svc = Inr out \<and> out \<noteq> []
            \<and> text_to_speech (elevenlabs_service svc) reply (Some out) = Returns (Some speech)
            \<and> speech \<noteq> []
            \<and> snd (process_audio_conversation svc h path language)
                = \<lparr>success = True, transcribed_text = transcript, ai_response = reply,
                   error = [], audio_response_path = out\<rparr>)"
    by (auto simp: process_audio_conversation_def Let_def generate_audio_response_Some
             split: outcome.splits option.splits if_splits)
  from a b c d a' b' c' d' show ?thesis by blast
qed

text \<open>
  The theorem at a turn whose speech synthesis returns nothing, and at a turn that
  succeeds.
\<close>

theorem audio_turn_stages_witness:
  "transcribe_audio_from_bytes (azure_speech mute_services) ''m4a'' ''en-US''
     = Returns (Some ''I have a cough'')
   \<and> ''I have a cough'' \<noteq> []
   \<and> generate_audio_conversation_response (groq_client mute_services) ''I have a cough'' []
       = Returns (Some ''How long have you had it?'')
   \<and> ''How long have you had it?'' \<noteq> []
   \<and> text_to_speech (elevenlabs_service mute_services) ''How long have you had it?'' None
       = Returns None
   \<and> process_audio_conversation_from_bytes mute_services [] ''m4a'' ''en-US''
       = ([], \<lparr>success = False, transcribed_text = ''I have a cough'',
               ai_response = ''How long have you had it?'',
               error = ''Failed to generate audio response'', audio_response_bytes = []\<rparr>)
   \<and> success (snd (process_audio_conversation_from_bytes working_services [] ''m4a'' ''en-US''))
   \<and> text_to_speech (elevenlabs_service working_services) ''How long have you had it?'' None
       = Returns (Some ''mp3'')"
proof -
  have t: "transcribe_audio_from_bytes (azure_speech mute_services) ''m4a'' ''en-US''
             = Returns (Some ''I have a cough'')"
    by (simp add: mute_services_def working_services_def)
  have r: "generate_audio_conversation_response (groq_client mute_services)
             ''I have a cough'' [] = Returns (Some ''How long have you had it?'')"
    by (simp add: mute_services_def working_services_def)
  have a: "text_to_speech (elevenlabs_service mute_services) ''How long have you had it?'' None
             = Returns None"
    by (simp add: mute_services_def)
  have w: "text_to_speech (elevenlabs_service working_services)
             ''How long have you had it?'' None = Returns (Some ''mp3'')"
    by (simp add: working_services_def)
  have m: "process_audio_conversation_from_bytes mute_services [] ''m4a'' ''en-US''
       = ([], \<lparr>success = False, transcribed_text = ''I have a cough'',
               ai_response = ''How long have you had it?'',
               error = ''Failed to generate audio response'', audio_response_bytes = []\<rparr>)"
    using t r a audio_turn_stages
      [where svc = mute_services and h = "[]" and audio = "''m4a''" and language = "''en-US''"
         and transcript = "''I have a cough''" and reply = "''How long have you had it?''"
         and a = None and t = None and r = None and e = "[]" and path = "[]"]
    by simp
  show ?thesis
    using t r a w m by (simp add: working_bytes_turn)
qed

section \<open>The two entry points\<close>

lemma path_turn_texts:
  "transcribed_text (snd (process_audio_conversation svc h path language)) =
     (case transcribe_audio (azure_speech svc) path language of
        Returns (Some transcript) \<Rightarrow> transcript
      | _ \<Rightarrow> [])
   \<and> ai_response (snd (process_audio_conversation svc h path language)) =
     (case transcribe_audio (azure_speech svc) path language of
        Returns (Some transcript) \<Rightarrow>
          if transcript = [] then []
          else (case generate_audio_conversation_response (groq_client svc) transcript h of
                  Returns (Some reply) \<Rightarrow> reply
                | _ \<Rightarrow> [])
      | _ \<Rightarrow> [])"
  by (simp add: process_audio_conversation_def Let_def split: outcome.splits option.splits)

lemma bytes_turn_texts:
  "transcribed_text (snd (process_audio_conversation_from_bytes svc h audio language)) =
     (case transcribe_audio_from_bytes (azure_speech svc) audio language of
        Returns (Some transcript) \<Rightarrow> transcript
      | _ \<Rightarrow> [])
   \<and> ai_response (snd (process_audio_conversation_from_bytes svc h audio language)) =
     (case transcribe_audio_from_bytes (azure_speech svc) audio language of
        Returns (Some transcript) \<Rightarrow>
          if transcript = [] then []
          else (case generate_audio_conversation_response (groq_client svc) transcript h of
                  Returns (Some reply) \<Rightarrow> reply
                | _ \<Rightarrow> [])
      | _ \<Rightarrow> [])"
  by (simp add: process_audio_conversation_from_bytes_def Let_def
           split: outcome.splits option.splits)

text \<open>
  C10, as the code has it. Let the transcription of the file and of the bytes give the
  same outcome, and let the response generation be the same. Then the two entry points
  return the same transcript and the same reply; and when they agree on success, that is,
  when the speech synthesis succeeds in both or fails in both, they leave the same
  history.
\<close>

theorem entry_points_agree:
  "transcribe_audio (azure_speech path_svc) path language
     = transcribe_audio_from_bytes (azure_speech bytes_svc) audio language
   \<and> generate_audio_conversation_response (groq_client path_svc)
       = generate_audio_conversation_response (groq_client bytes_svc)
   \<longrightarrow> transcribed_text (snd (process_audio_conversation path_svc h path language))
         = transcribed_text (snd (process_audio_conversation_from_bytes bytes_svc h audio language))
     \<and> ai_response (snd (process_audio_conversation path_svc h path language))
         = ai_response (snd (process_audio_conversation_from_bytes bytes_svc h audio language))
     \<and> (success (snd (process_audio_conversation path_svc h path language))
           = success (snd (process_audio_conversation_from_bytes bytes_svc h audio language))
        \<longrightarrow> fst (process_audio_conversation path_svc h path language)
              = fst (process_audio_conversation_from_bytes bytes_svc h audio language))"
proof (intro impI, elim conjE)
  assume t: "transcribe_audio (azure_speech path_svc) path language
     = transcribe_audio_from_bytes (azure_speech bytes_svc) audio language"
    and g: "generate_audio_conversation_response (groq_client path_svc)
       = generate_audio_conversation_response (groq_client bytes_svc)"
  let ?p = "process_audio_conversation path_svc h path language"
  let ?b = "process_audio_conversation_from_bytes bytes_svc h audio language"
  have tt: "transcribed_text (snd ?p) = transcribed_text (snd ?b)"
    using path_turn_texts[of path_svc h path language]
      bytes_turn_texts[of bytes_svc h audio language] t by simp
  have rr: "ai_response (snd ?p) = ai_response (snd ?b)"
    using path_turn_texts[of path_svc h path language]
      bytes_turn_texts[of bytes_svc h audio language] t g
    by (simp split: outcome.splits option.splits)
  have hh: "success (snd ?p) = success (snd ?b) \<longrightarrow> fst ?p = fst ?b"
    using path_turn_history[of path_svc h path language]
      bytes_turn_history[of bytes_svc h audio language] tt rr by simp
  from tt rr hh
  show "transcribed_text (snd ?p) = transcribed_text (snd ?b)
     \<and> ai_response (snd ?p) = ai_response (snd ?b)
     \<and> (success (snd ?p) = success (snd ?b) \<longrightarrow> fst ?p = fst ?b)"
    by blast
qed

text \<open>The theorem at two turns on working services.\<close>

theorem entry_points_agree_witness:
  "transcribe_audio (azure_speech working_services) ''in.m4a'' ''en-US''
     = transcribe_audio_from_bytes (azure_speech working_services) ''m4a'' ''en-US''
   \<and> generate_audio_conversation_response (groq_client working_services)
       = generate_audio_conversation_response (groq_client working_services)
   \<and> success (snd (process_audio_conversation working_services [] ''in.m4a'' ''en-US''))
       = success (snd (process_audio_conversation_from_bytes working_services [] ''m4a'' ''en-US''))
   \<and> fst (process_audio_conversation working_services [] ''in.m4a'' ''en-US'')
       = fst (process_audio_conversation_from_bytes working_services [] ''m4a'' ''en-US'')
   \<and> transcribed_text (snd (process_audio_conversation working_services [] ''in.m4a'' ''en-US''))
       = ''I have a cough''"
proof -
  have t: "transcribe_audio (azure_speech working_services) ''in.m4a'' ''en-US''
     = transcribe_audio_from_bytes (azure_speech working_services) ''m4a'' ''en-US''"
    by (simp add: working_services_def)
  show ?thesis
    using t entry_points_agree
      [where path_svc = working_services and bytes_svc = working_services and h = "[]"
         and path = "''in.m4a''" and audio = "''m4a''" and language = "''en-US''"]
    by (simp add: working_bytes_turn working_path_turn)
qed

text \<open>
  C10 as stated fails: with the same transcription and the same response generation, the
  speech synthesis fails in the turn from the file and succeeds in the turn from the
  bytes; the first leaves the history empty and the second appends two entries.
\<close>

theorem entry_points_counterexample:
  "transcribe_audio (azure_speech mute_services) ''in.m4a'' ''en-US''
     = transcribe_audio_from_bytes (azure_speech working_services) ''m4a'' ''en-US''
   \<and> generate_audio_conversation_response (groq_client mute_services)
       = generate_audio_conversation_response (groq_client working_services)
   \<and> fst (process_audio_conversation mute_services [] ''in.m4a'' ''en-US'') = []
   \<and> fst (process_audio_conversation_from_bytes working_services [] ''m4a'' ''en-US'')
       = [\<lparr>role = ''user'', content = ''I have a cough''\<rparr>,
          \<lparr>role = ''assistant'', content = ''How long have you had it?''\<rparr>]
   \<and> fst (process_audio_conversation mute_services [] ''in.m4a'' ''en-US'')
       \<noteq> fst (process_audio_conversation_from_bytes working_services [] ''m4a'' ''en-US'')"
proof -
  have "transcribe_audio (azure_speech mute_services) ''in.m4a'' ''en-US''
     = transcribe_audio_from_bytes (azure_speech working_services) ''m4a'' ''en-US''"
    by (simp add: mute_services_def working_services_def)
  moreover have "generate_audio_conversation_response (groq_client mute_services)
       = generate_audio_conversation_response (groq_client working_services)"
    by (simp add: mute_services_def working_services_def)
  ultimately show ?thesis
    by (simp add: working_bytes_turn mute_path_turn update_conversation_history_def)
qed

end
